theory Spec2Isabelle
  imports Complex_Main "HOL-Library.Word" "HOL-Library.AList"
begin

section \<open>The voice player of stoatbot.js\<close>

text \<open>
  A shallow embedding of the class \<open>AudioPlayer\<close> (the voice session lifecycle and the
  audio delivery pipeline). A method of the class becomes a function from the external
  world and the player's fields to the way its promise settles and the fields afterwards.
  Everything the player does to the outside (an event handed to the \<open>EventEmitter\<close>, a
  line on the console, a request to the signaling endpoint, a call of the voice transport
  or of a decoder) is appended to a trace, in program order. What the outside answers is
  read from an oracle that is given the trace so far, so an answer may depend on
  everything that happened before it.

  Conventions: listeners registered by the host do not throw and an \<open>error\<close> listener is
  registered; the payload object of a \<open>debug\<close> event is left out (its message is kept).
  A playback method is open to interruption wherever it awaits the transport, a decoder
  or a timer (\<open>suspend\<close>); a call of \<open>connect\<close>, \<open>stop\<close> or \<open>disconnect\<close> is taken to run to
  its end without interruption.
\<close>

subsection \<open>JavaScript values\<close>

text \<open>
  A thrown value: its \<open>message\<close> and the \<open>response.data.type\<close> discriminator of an HTTP
  error of the REST client, each possibly undefined.
\<close>

datatype js_error = JsError (message: "string option") (response_type: "string option")

definition Error :: "string \<Rightarrow> js_error" where
  "Error m = JsError (Some m) None"

text \<open>How a promise ends: fulfilled, rejected, or never settled.\<close>

datatype 'a outcome = Resolved 'a | Rejected js_error | Pending

text \<open>\<open>String.prototype.startsWith\<close>, \<open>includes\<close> and (on ASCII) \<open>toLowerCase\<close>.\<close>

fun startsWith :: "string \<Rightarrow> string \<Rightarrow> bool" where
  "startsWith s [] = True"
| "startsWith [] (c # cs) = False"
| "startsWith (x # xs) (c # cs) = (x = c \<and> startsWith xs cs)"

fun str_includes :: "string \<Rightarrow> string \<Rightarrow> bool" where
  "str_includes [] sub = (sub = [])"
| "str_includes (x # xs) sub = (startsWith (x # xs) sub \<or> str_includes xs sub)"

definition lower_char :: "char \<Rightarrow> char" where
  "lower_char c =
     (case map_of (zip ''ABCDEFGHIJKLMNOPQRSTUVWXYZ'' ''abcdefghijklmnopqrstuvwxyz'') c of
        None \<Rightarrow> c
      | Some l \<Rightarrow> l)"

definition toLowerCase :: "string \<Rightarrow> string" where
  "toLowerCase s = map lower_char s"

text \<open>Decimal rendering of a number inside a template string.\<close>

fun show_nat :: "nat \<Rightarrow> string" where
  "show_nat n =
     (if n < 10 then [''0123456789'' ! n]
      else show_nat (n div 10) @ [''0123456789'' ! (n mod 10)])"

declare show_nat.simps [simp del]

definition show_int :: "int \<Rightarrow> string" where
  "show_int i = (if i < 0 then CHR ''-'' # show_nat (nat (- i)) else show_nat (nat i))"

text \<open>The non-ASCII characters of the console and error texts, as their UTF-8 bytes.\<close>

definition cross_mark :: string where
  "cross_mark = [CHR 0xE2, CHR 0x9D, CHR 0x8C]"

definition warning_sign :: string where
  "warning_sign = [CHR 0xE2, CHR 0x9A, CHR 0xA0, CHR 0xEF, CHR 0xB8, CHR 0x8F]"

definition bullet :: string where
  "bullet = [CHR 0xE2, CHR 0x80, CHR 0xA2]"

subsection \<open>Transport objects, events and the trace\<close>

text \<open>An \<open>Int16Array\<close> is a list of 16-bit words, read as signed by \<open>sint\<close>.\<close>

type_synonym pcm = "16 word list"

datatype room = Room (room_no: nat)

datatype publication = Publication (sid: string)

datatype audio_source = AudioSource (source_rate: nat) (source_channels: nat)

datatype readable = Readable (stream_no: nat)

record grant =
  grant_token :: string
  grant_url :: string

text \<open>
  The events of \<open>AudioPlayerEvents\<close>. \<open>AudioEndUrl\<close> is the \<open>audioEnd\<close> event that
  \<open>playFromUrl\<close> emits with the object \<open>{ url }\<close> in the place of the type, and
  \<open>AudioEndSource\<close> the one that \<open>playStreamingAudio\<close> emits with its \<open>AudioSource\<close> in
  the place of the source (the local constant \<open>source\<close> hides the parameter there).
  \<open>DebugVolume\<close> is the \<open>debug\<close> event of \<open>setVolume\<close>, whose message renders the new
  level as a percentage; it carries the old and the new level.
\<close>

datatype event =
    Connected string string string
  | Disconnected string string string
  | AudioStart string string
  | AudioEnd string string
  | AudioEndUrl string string
  | AudioEndSource audio_source string
  | AudioError string string js_error
  | VolumeChanged real real
  | Muted real
  | Unmuted real
  | TrackPublished string
  | TrackStopped string
  | ConversionStart string nat nat
  | ConversionEnd string nat
  | ConversionError string js_error
  | Debug string
  | DebugVolume real real
  | ErrorEvent js_error string

datatype action =
    Emit event
  | ConsoleError string "js_error option"
  | ConsoleWarn string
  | ApiPost string string bool
  | ApiDelete string
  | NewRoom room
  | RoomConnect room string string
  | RoomDisconnect room
  | PublishTrack string
  | UnpublishTrack string
  | SetMuted string
  | TrackSetMuted string
  | SetEnabled string
  | CaptureFrame string pcm
  | Sleep nat
  | NodeAVConvert
  | NodeAVCreateAudioStream readable
  | SpawnFFmpeg "string list"
  | KillFFmpeg
  | HttpGet string

subsection \<open>The player's fields\<close>

text \<open>
  The fields of the class, the trace, and \<open>disconnectedOnce\<close>: the listeners that
  \<open>playStreamingAudio\<close> has registered with \<open>this.once("disconnected", ...)\<close> and that have
  not run yet, in the order of their registration. Each of them clears \<open>isStreaming\<close>;
  \<open>True\<close> stands for the one that also kills the \<open>ffmpeg\<close> process.
\<close>

record player =
  channelId :: string
  serverId :: string
  volume :: real
  room :: "room option"
  publications :: "(string \<times> publication) list"
  audioSources :: "(string \<times> audio_source) list"
  isConnected :: bool
  shouldStop :: bool
  isStreaming :: bool
  disconnectedOnce :: "bool list"
  trace :: "action list"

text \<open>The constructor: \<open>new AudioPlayer(channelId, serverId, client)\<close>.\<close>

definition new_player :: "string \<Rightarrow> string \<Rightarrow> player" where
  "new_player ch srv =
     \<lparr>channelId = ch, serverId = srv, volume = 1, room = None, publications = [],
      audioSources = [], isConnected = False, shouldStop = False, isStreaming = False,
      disconnectedOnce = [], trace = []\<rparr>"

definition act :: "action \<Rightarrow> player \<Rightarrow> player" where
  "act a s = s\<lparr>trace := trace s @ [a]\<rparr>"

definition emit :: "event \<Rightarrow> player \<Rightarrow> player" where
  "emit e s = act (Emit e) s"

text \<open>The getter \<open>connected\<close>: \<open>this.isConnected && !!this.room\<close>.\<close>

definition connected :: "player \<Rightarrow> bool" where
  "connected s = (isConnected s \<and> room s \<noteq> None)"

subsection \<open>Volume\<close>

definition setVolume :: "real \<Rightarrow> player \<Rightarrow> player" where
  "setVolume level s =
     (let oldVolume = volume s;
          s1 = s\<lparr>volume := max 0 (min 2 level)\<rparr>;
          s2 = emit (DebugVolume oldVolume (volume s1)) s1
      in emit (VolumeChanged oldVolume (volume s2)) s2)"

definition increaseVolume :: "real \<Rightarrow> player \<Rightarrow> player" where
  "increaseVolume amount s = setVolume (volume s + amount) s"

definition decreaseVolume :: "real \<Rightarrow> player \<Rightarrow> player" where
  "decreaseVolume amount s = setVolume (volume s - amount) s"

definition mute :: "player \<Rightarrow> player" where
  "mute s = (let oldVolume = volume s in emit (Muted oldVolume) (setVolume 0 s))"

definition unmute :: "player \<Rightarrow> player" where
  "unmute s = (if volume s = 0 then emit (Unmuted 1) (setVolume 1 s) else s)"

text \<open>
  \<open>Math.round\<close>: the nearest integer, a tie going towards plus infinity.
\<close>

definition js_round :: "real \<Rightarrow> int" where
  "js_round x = \<lfloor>x + 1 / 2\<rfloor>"

text \<open>
  \<open>applyVolume\<close>. The product \<open>pcmData[i] * this._volume\<close> is a product of IEEE doubles,
  which rounds; it is the parameter \<open>mul\<close>, about which nothing is assumed but that it
  yields a number. The assignment to \<open>result[i]\<close> converts to 16 bits as an \<open>Int16Array\<close>
  does, by wrapping (\<open>word_of_int\<close>).
\<close>

function applyVolume_loop ::
  "(int \<Rightarrow> real \<Rightarrow> real) \<Rightarrow> real \<Rightarrow> pcm \<Rightarrow> pcm \<Rightarrow> nat \<Rightarrow> pcm" where
  "applyVolume_loop mul v pcmData result i =
     (if i < length pcmData
      then applyVolume_loop mul v pcmData
             (result[i := word_of_int
                 (max (- 32768) (min 32767 (js_round (mul (sint (pcmData ! i)) v))))])
             (i + 1)
      else result)"
  by pat_completeness auto
termination
  by (relation "measure (\<lambda>(mul, v, pcmData, result, i). length pcmData - i)") auto

declare applyVolume_loop.simps [simp del]

definition applyVolume :: "(int \<Rightarrow> real \<Rightarrow> real) \<Rightarrow> player \<Rightarrow> pcm \<Rightarrow> pcm" where
  "applyVolume mul s pcmData =
     (if volume s = 1 then pcmData
      else applyVolume_loop mul (volume s) pcmData (replicate (length pcmData) 0) 0)"

text \<open>
  The volume processor as the specification words it, on sample values: the input
  unchanged at level 1, otherwise each sample times the level, rounded and clamped.
\<close>

definition clamp16 :: "int \<Rightarrow> int" where
  "clamp16 x = (if x < - 32768 then - 32768 else if 32767 < x then 32767 else x)"

definition applyVolume_spec :: "(int \<Rightarrow> real \<Rightarrow> real) \<Rightarrow> real \<Rightarrow> int list \<Rightarrow> int list" where
  "applyVolume_spec mul level samples =
     (if level = 1 then samples else map (\<lambda>x. clamp16 (round (mul x level))) samples)"

subsection \<open>The outside world\<close>

text \<open>
  The collaborators of the player, as oracles on the trace so far: the client's
  configuration and REST interface, the voice transport (\<open>Room\<close>, its local participant,
  a publication, a track, an \<open>AudioSource\<close>), the clock, the two decoders, the URL parser,
  the file system, the HTTP client, and the host application. While a playback method
  is suspended the transport may report that the connection is lost (\<open>transport_drop\<close>:
  the \<open>Room\<close> emits \<open>Disconnected\<close>) and the host may call \<open>stop\<close> (\<open>host_stop\<close>).
  \<open>publication_setMuted\<close>, \<open>track_setMuted\<close> and \<open>track_setEnabled\<close> say whether the
  publication and the track of the transport library have a function of that name.
  \<open>fmul\<close> is the product of a sample and a level in IEEE double arithmetic.
\<close>

text \<open>
  A run of the external \<open>ffmpeg\<close> process of a conversion: it closes with the bytes it
  wrote to its standard output, the text it wrote to its standard error and an exit code
  (\<open>null\<close> when a signal ended it); or it cannot be spawned, and then the process emits
  \<open>error\<close> with a message and after it \<open>close\<close> with a code.
\<close>

datatype ffmpeg_result =
    FFmpegClosed "8 word list" string "int option"
  | FFmpegSpawnError string "int option"

text \<open>
  What happens while the \<open>ffmpeg\<close> process of a live playback runs, in order: a \<open>data\<close>
  event of its standard output, or an \<open>error\<close>, \<open>close\<close> or \<open>end\<close> event of the input stream
  that is piped into it.
\<close>

datatype stream_event =
    StdoutData "8 word list"
  | InputError js_error
  | InputClose
  | InputEnd

text \<open>
  A run of the streaming decoder of \<open>node-av\<close>: the chunks it delivers, and how it ends
  (its \<open>onEnd\<close> callback, its \<open>onError\<close> callback, or a rejection of the call).
\<close>

datatype decode_end = DecodeEnd | DecodeError js_error | DecodeRejects js_error

text \<open>
  The answer to \<open>client.get(url)\<close>: a response (status code, \<open>content-type\<close> and
  \<open>content-length\<close> headers, body), an \<open>error\<close> event, or the timeout of 30 seconds; the
  request destroyed on the timeout then emits \<open>error\<close> itself, with the error given.
\<close>

datatype http_result =
    HttpResponse nat "string option" "string option" readable
  | HttpRequestError js_error
  | HttpTimeout js_error

text \<open>What \<open>play\<close> accepts: \<open>string | Readable\<close>.\<close>

datatype play_input = Str string | Stream readable

record world =
  voice_nodes :: "string list option"
  api_post :: "action list \<Rightarrow> string \<Rightarrow> string \<Rightarrow> bool \<Rightarrow> js_error + grant"
  api_delete :: "action list \<Rightarrow> string \<Rightarrow> js_error option"
  room_connect :: "action list \<Rightarrow> string \<Rightarrow> string \<Rightarrow> js_error + string"
  room_disconnect :: "action list \<Rightarrow> js_error option"
  local_participant :: "action list \<Rightarrow> bool"
  publish_track :: "action list \<Rightarrow> js_error + publication option"
  unpublish_track :: "action list \<Rightarrow> string \<Rightarrow> js_error option"
  publication_setMuted :: bool
  track_setMuted :: bool
  track_setEnabled :: bool
  set_muted :: "action list \<Rightarrow> js_error option"
  set_enabled :: "action list \<Rightarrow> js_error option"
  capture_frame :: "action list \<Rightarrow> pcm \<Rightarrow> js_error option"
  transport_drop :: "action list \<Rightarrow> bool"
  host_stop :: "action list \<Rightarrow> string option option"
  now :: "action list \<Rightarrow> nat"
  fmul :: "int \<Rightarrow> real \<Rightarrow> real"
  node_av_available :: bool
  nodeav_convert :: "action list \<Rightarrow> js_error + pcm"
  nodeav_stream :: "action list \<Rightarrow> pcm list \<times> decode_end"
  ffmpeg_run :: "action list \<Rightarrow> ffmpeg_result"
  stream_error :: "action list \<Rightarrow> js_error option"
  ffmpeg_stream :: "action list \<Rightarrow> stream_event list \<times> int option"
  parse_url :: "string \<Rightarrow> string option"
  exists_sync :: "action list \<Rightarrow> string \<Rightarrow> bool"
  http_get :: "action list \<Rightarrow> string \<Rightarrow> http_result"

subsection \<open>Stopping and disconnecting\<close>

text \<open>
  \<open>this.room.localParticipant?.unpublishTrack(sid)\<close>: no call and no error when there is
  no local participant.
\<close>

definition unpublish :: "world \<Rightarrow> string \<Rightarrow> player \<Rightarrow> js_error option \<times> player" where
  "unpublish w track s =
     (if local_participant w (trace s)
      then (unpublish_track w (trace s) track, act (UnpublishTrack track) s)
      else (None, s))"

definition stop_failed :: "string \<Rightarrow> js_error \<Rightarrow> player \<Rightarrow> player" where
  "stop_failed k e s =
     act (ConsoleError (cross_mark @ '' ['' @ channelId s @ ''] Failed to stop track '' @ k @ '':'')
            (Some e)) s"

text \<open>The loop of \<open>stop\<close> over all publications, in the insertion order of the \<open>Map\<close>.\<close>

fun stop_all :: "world \<Rightarrow> (string \<times> publication) list \<Rightarrow> player \<Rightarrow> player" where
  "stop_all w [] s = s"
| "stop_all w ((k, p) # ps) s =
     (case unpublish w (sid p) s of
        (None, s1) \<Rightarrow> stop_all w ps (emit (TrackStopped k) s1)
      | (Some e, s1) \<Rightarrow> stop_all w ps (stop_failed k e s1))"

text \<open>
  \<open>stop(trackName?)\<close>. Its promise is always fulfilled: every failure is caught and logged.
\<close>

definition stop :: "world \<Rightarrow> string option \<Rightarrow> player \<Rightarrow> player" where
  "stop w trackName s =
     (let s1 = s\<lparr>shouldStop := True, isStreaming := False\<rparr> in
      if room s1 = None then s1
      else if trackName \<noteq> None \<and> trackName \<noteq> Some []
      then (case map_of (publications s1) (the trackName) of
              None \<Rightarrow> s1
            | Some p \<Rightarrow>
                (case unpublish w (sid p) s1 of
                   (None, s2) \<Rightarrow>
                     emit (TrackStopped (the trackName))
                       (s2\<lparr>publications := AList.delete (the trackName) (publications s2)\<rparr>)
                 | (Some e, s2) \<Rightarrow> stop_failed (the trackName) e s2))
      else (stop_all w (publications s1) s1)\<lparr>publications := []\<rparr>)"

text \<open>
  The event \<open>disconnected\<close>: after it is emitted, the listeners registered with \<open>once\<close>
  run and are removed.
\<close>

definition run_once :: "player \<Rightarrow> player" where
  "run_once s =
     (foldl (\<lambda>st kill. if kill then act KillFFmpeg (st\<lparr>isStreaming := False\<rparr>)
                        else st\<lparr>isStreaming := False\<rparr>)
        s (disconnectedOnce s))\<lparr>disconnectedOnce := []\<rparr>"

definition emit_disconnected :: "string \<Rightarrow> player \<Rightarrow> player" where
  "emit_disconnected reason s =
     run_once (emit (Disconnected (channelId s) (serverId s) reason) s)"

text \<open>\<open>disconnect\<close>: nothing is done when the player holds no transport handle.\<close>

definition disconnect :: "world \<Rightarrow> player \<Rightarrow> unit outcome \<times> player" where
  "disconnect w s =
     (case room s of
        None \<Rightarrow> (Resolved (), s)
      | Some r \<Rightarrow>
          (let s1 = stop w None s;
               s2 = s1\<lparr>audioSources := []\<rparr>;
               s3 = act (RoomDisconnect r) s2
           in case room_disconnect w (trace s2) of
                None \<Rightarrow>
                  (let s4 = s3\<lparr>isConnected := False, publications := [], room := None\<rparr>;
                       s5 = emit_disconnected ''manual'' s4
                   in (Resolved (), emit (Debug ''Disconnected manually'') s5))
              | Some e \<Rightarrow>
                  (let s4 = act (ConsoleError
                                  (cross_mark @ '' ['' @ channelId s3 @ ''] Error during disconnect:'')
                                  (Some e)) s3
                   in (Rejected e,
                       s4\<lparr>isConnected := False, publications := [], audioSources := [],
                          room := None\<rparr>))))"

text \<open>
  The handler of the transport's \<open>Disconnected\<close> event, which \<open>connect\<close> registers on
  every \<open>Room\<close> it creates.
\<close>

definition handleDisconnected :: "player \<Rightarrow> player" where
  "handleDisconnected s =
     (let s1 = s\<lparr>audioSources := [], isConnected := False, publications := [], room := None\<rparr>;
          s2 = emit_disconnected ''unexpected'' s1
      in emit (Debug ''Voice disconnected unexpectedly'') s2)"

subsection \<open>Connecting\<close>

text \<open>
  \<open>this.client.voiceOptions.nodes?.[0].name || "worldwide"\<close>: with an empty list of
  nodes the property read throws a \<open>TypeError\<close>.
\<close>

definition selectedNode :: "world \<Rightarrow> js_error + string" where
  "selectedNode w =
     (case voice_nodes w of
        None \<Rightarrow> Inr ''worldwide''
      | Some [] \<Rightarrow> Inl (Error ''Cannot read properties of undefined (reading 'name')'')
      | Some (n # ns) \<Rightarrow> Inr (if n = [] then ''worldwide'' else n))"

definition isAlreadyConnected :: "js_error \<Rightarrow> bool" where
  "isAlreadyConnected joinError =
     ((case message joinError of None \<Rightarrow> False | Some m \<Rightarrow> str_includes m ''AlreadyConnected'')
      \<or> response_type joinError = Some ''AlreadyConnected'')"

definition nl :: string where
  "nl = [CHR 0x0A]"

definition conflict_message :: string where
  "conflict_message =
     ''Unable to join voice channel: Bot is already connected to another voice channel.'' @ nl @ nl @
     ''This typically happens when:'' @ nl @
     bullet @ '' The bot didn't disconnect properly from a previous session'' @ nl @
     bullet @ '' Another instance of the bot is running'' @ nl @
     bullet @ '' The bot crashed without proper cleanup'' @ nl @ nl @
     ''Solutions to try:'' @ nl @
     ''1. Restart the bot application completely'' @ nl @
     ''2. Wait 30-60 seconds for the connection to timeout'' @ nl @
     ''3. Check if another bot instance is running'' @ nl @
     ''4. Check server permissions for voice channels'' @ nl @ nl @
     ''If this persists, the API may need manual intervention to clear the connection state.''"

text \<open>One \<open>POST /channels/{channel}/join_call\<close>, with or without the force flag.\<close>

definition post_join ::
  "world \<Rightarrow> string \<Rightarrow> string \<Rightarrow> bool \<Rightarrow> player \<Rightarrow> (js_error + grant) \<times> player" where
  "post_join w ch node force s =
     (api_post w (trace s) ch node force, act (ApiPost ch node force) s)"

text \<open>Strategy 2 and the final strategy: the forced join, then the error with its advice.\<close>

definition force_join :: "world \<Rightarrow> string \<Rightarrow> string \<Rightarrow> player \<Rightarrow> (js_error + grant) \<times> player" where
  "force_join w ch node s =
     (case post_join w ch node True s of
        (Inr response, s1) \<Rightarrow> (Inr response, s1)
      | (Inl forceError, s1) \<Rightarrow> (Inl (Error conflict_message), s1))"

text \<open>Strategy 1: \<open>DELETE\<close> on the same channel, then the join again.\<close>

definition release_and_retry ::
  "world \<Rightarrow> string \<Rightarrow> string \<Rightarrow> player \<Rightarrow> (js_error + grant) \<times> player" where
  "release_and_retry w ch node s =
     (case api_delete w (trace s) ch of
        Some deleteError \<Rightarrow> force_join w ch node (act (ApiDelete ch) s)
      | None \<Rightarrow>
          (case post_join w ch node False (act (ApiDelete ch) s) of
             (Inr response, s1) \<Rightarrow> (Inr response, s1)
           | (Inl deleteError, s1) \<Rightarrow> force_join w ch node s1))"

text \<open>The first attempt and its \<open>catch\<close>.\<close>

definition join_call :: "world \<Rightarrow> string \<Rightarrow> string \<Rightarrow> player \<Rightarrow> (js_error + grant) \<times> player" where
  "join_call w ch node s =
     (case post_join w ch node False s of
        (Inr response, s1) \<Rightarrow> (Inr response, s1)
      | (Inl joinError, s1) \<Rightarrow>
          if isAlreadyConnected joinError then release_and_retry w ch node s1
          else (Inl joinError, s1))"

text \<open>The outer \<open>catch\<close> of \<open>connect\<close>: the error is emitted, logged and thrown again.\<close>

definition connect_failed :: "string \<Rightarrow> js_error \<Rightarrow> player \<Rightarrow> unit outcome \<times> player" where
  "connect_failed ch e s =
     (Rejected e,
      act (ConsoleError (cross_mark @ '' ['' @ ch @ ''] Failed to connect:'') (Some e))
        (emit (ErrorEvent e ''connection'') s))"

text \<open>
  The transport handshake: the new \<open>Room\<close> is stored in \<open>this.room\<close> before
  \<open>room.connect\<close> is awaited.
\<close>

definition open_room :: "world \<Rightarrow> string \<Rightarrow> grant \<Rightarrow> player \<Rightarrow> unit outcome \<times> player" where
  "open_room w ch response s =
     (let r = Room (length (trace s));
          s1 = (act (NewRoom r) s)\<lparr>room := Some r\<rparr>;
          s2 = act (RoomConnect r (grant_url response) (grant_token response)) s1
      in case room_connect w (trace s1) (grant_url response) (grant_token response) of
           Inl e \<Rightarrow> connect_failed ch e s2
         | Inr name \<Rightarrow>
             (let s3 = emit (Connected ch (serverId s2) name) (s2\<lparr>isConnected := True\<rparr>)
              in (Resolved (), emit (Debug ''Connection established'') s3)))"

text \<open>The \<open>try\<close> block of \<open>connect\<close>.\<close>

definition negotiate :: "world \<Rightarrow> string \<Rightarrow> player \<Rightarrow> unit outcome \<times> player" where
  "negotiate w ch s =
     (case selectedNode w of
        Inl e \<Rightarrow> connect_failed ch e s
      | Inr node \<Rightarrow>
          (case join_call w ch node s of
             (Inl e, s1) \<Rightarrow> connect_failed ch e s1
           | (Inr response, s1) \<Rightarrow> open_room w ch response s1))"

text \<open>\<open>targetChannelId || this.channelId\<close>: an absent or empty target is the player's own.\<close>

definition channelToConnect :: "string option \<Rightarrow> player \<Rightarrow> string" where
  "channelToConnect targetChannelId s =
     (case targetChannelId of
        None \<Rightarrow> channelId s
      | Some t \<Rightarrow> if t = [] then channelId s else t)"

definition connect :: "world \<Rightarrow> string option \<Rightarrow> player \<Rightarrow> unit outcome \<times> player" where
  "connect w targetChannelId s =
     (let ch = channelToConnect targetChannelId s in
      if isConnected s \<and> ch \<noteq> channelId s
      then (case disconnect w s of
              (Resolved u, s1) \<Rightarrow>
                negotiate w ch (emit (Debug ''Starting connection'') (s1\<lparr>channelId := ch\<rparr>))
            | (Rejected e, s1) \<Rightarrow> (Rejected e, s1)
            | (Pending, s1) \<Rightarrow> (Pending, s1))
      else if isConnected s \<and> ch = channelId s then (Resolved (), s)
      else negotiate w ch (emit (Debug ''Starting connection'') s))"

subsection \<open>Promises\<close>

text \<open>
  \<open>await\<close>: the continuation runs when the awaited promise is fulfilled; a rejection is
  thrown on, and behind a promise that never settles nothing runs.
\<close>

definition await ::
  "'a outcome \<times> player \<Rightarrow> ('a \<Rightarrow> player \<Rightarrow> 'b outcome \<times> player) \<Rightarrow> 'b outcome \<times> player" where
  "await r k =
     (case r of
        (Resolved x, s) \<Rightarrow> k x s
      | (Rejected e, s) \<Rightarrow> (Rejected e, s)
      | (Pending, s) \<Rightarrow> (Pending, s))"

text \<open>\<open>if (!this.connected) await this.connect()\<close>.\<close>

definition ensure_connected :: "world \<Rightarrow> player \<Rightarrow> unit outcome \<times> player" where
  "ensure_connected w s = (if \<not> connected s then connect w None s else (Resolved (), s))"

text \<open>
  A suspension point of a playback method: while the method waits, the event loop runs
  what is pending. The transport may have lost the connection, and then the handler of
  \<open>Disconnected\<close> runs (there is one once \<open>connect\<close> has created a \<open>Room\<close>); and the host
  may call \<open>stop\<close>.
\<close>

definition room_created :: "action list \<Rightarrow> bool" where
  "room_created tr = list_ex (\<lambda>a. case a of NewRoom r \<Rightarrow> True | _ \<Rightarrow> False) tr"

definition transport_event :: "world \<Rightarrow> player \<Rightarrow> player" where
  "transport_event w s =
     (if room_created (trace s) \<and> transport_drop w (trace s) then handleDisconnected s else s)"

definition suspend :: "world \<Rightarrow> player \<Rightarrow> player" where
  "suspend w s =
     (let s1 = transport_event w s
      in case host_stop w (trace s1) of
           None \<Rightarrow> s1
         | Some trackName \<Rightarrow> stop w trackName s1)"

definition captureFrame :: "world \<Rightarrow> string \<Rightarrow> pcm \<Rightarrow> player \<Rightarrow> js_error option \<times> player" where
  "captureFrame w src frame s = (capture_frame w (trace s) frame, act (CaptureFrame src frame) s)"

text \<open>A JavaScript string used as a condition: undefined and the empty string are false.\<close>

definition truthy :: "string option \<Rightarrow> bool" where
  "truthy x = (x \<noteq> None \<and> x \<noteq> Some [])"

subsection \<open>Decoding a finite source\<close>

text \<open>
  The samples of a buffer of little-endian 16-bit PCM; a last odd byte is left out, as
  the length \<open>pcmBuffer.length / 2\<close> of the \<open>Int16Array\<close> leaves it out.
\<close>

fun pcm_of_bytes :: "8 word list \<Rightarrow> pcm" where
  "pcm_of_bytes (lo # hi # bs) = (ucast lo + 256 * ucast hi) # pcm_of_bytes bs"
| "pcm_of_bytes bs = []"

definition show_code :: "int option \<Rightarrow> string" where
  "show_code code = (case code of None \<Rightarrow> ''null'' | Some c \<Rightarrow> show_int c)"

definition ffmpeg_args :: "play_input \<Rightarrow> nat \<Rightarrow> nat \<Rightarrow> string list" where
  "ffmpeg_args input sampleRate channels =
     (case input of Str filePath \<Rightarrow> [''-i'', filePath] | Stream st \<Rightarrow> [''-i'', ''pipe:0''])
     @ [''-f'', ''s16le'', ''-ar'', show_nat sampleRate, ''-ac'', show_nat channels, ''-'']"

text \<open>
  The \<open>close\<close> handler of the \<open>ffmpeg\<close> process of a conversion: it fulfils the promise on
  exit code 0 and otherwise only emits \<open>conversionError\<close> and logs; \<open>reject\<close> is never
  called.
\<close>

definition convert_closed ::
  "string \<Rightarrow> 8 word list \<Rightarrow> string \<Rightarrow> int option \<Rightarrow> player \<Rightarrow> pcm outcome \<times> player" where
  "convert_closed sourceDesc out errorOutput code s =
     (if code = Some 0
      then (let int16Array = pcm_of_bytes out;
                s1 = emit (ConversionEnd sourceDesc (length int16Array)) s
            in (Resolved int16Array, emit (Debug ''FFmpeg conversion completed'') s1))
      else (let error = Error (''FFmpeg failed with code '' @ show_code code
                                 @ '': '' @ errorOutput);
                s1 = emit (ConversionError sourceDesc error) s
            in (Pending, act (ConsoleError [] (Some error)) s1)))"

text \<open>The \<open>error\<close> handler of the process: it emits and logs too.\<close>

definition convert_spawn_failed :: "string \<Rightarrow> string \<Rightarrow> player \<Rightarrow> player" where
  "convert_spawn_failed sourceDesc m s =
     (let error = Error (''FFmpeg spawn error: '' @ m)
      in act (ConsoleError [] (Some error)) (emit (ConversionError sourceDesc error) s))"

text \<open>
  \<open>convertAudioToPCM\<close>. With \<open>node-av\<close> the result is the processor's: a buffer or a
  rejection, given by the oracle \<open>nodeav_convert\<close> (the file \<open>node-av\<close> is not among the
  sources). Without it the promise is built around an \<open>ffmpeg\<close> process. When the process
  cannot be spawned its \<open>error\<close> handler runs and then its \<open>close\<close> handler. When the input
  is a stream and the stream emits \<open>error\<close>, the process is killed and the error logged.
  The player is suspended while the decoder works.
\<close>

definition convertAudioToPCM ::
  "world \<Rightarrow> play_input \<Rightarrow> nat \<Rightarrow> nat \<Rightarrow> player \<Rightarrow> pcm outcome \<times> player" where
  "convertAudioToPCM w input sampleRate channels s =
     (let sourceDesc = (case input of Str filePath \<Rightarrow> filePath | Stream st \<Rightarrow> ''stream'');
          s1 = emit (ConversionStart sourceDesc sampleRate channels) s
      in if node_av_available w
         then (let s2 = emit (Debug ''Using node-av for audio conversion'') s1
               in case nodeav_convert w (trace s2) of
                    Inl e \<Rightarrow> (Rejected e, suspend w (act NodeAVConvert s2))
                  | Inr pcmData \<Rightarrow> (Resolved pcmData, suspend w (act NodeAVConvert s2)))
         else (let s2 = emit (Debug ''node-av not available, using FFmpeg for audio conversion'') s1;
                   s3 = suspend w (act (SpawnFFmpeg (ffmpeg_args input sampleRate channels)) s2);
                   run = ffmpeg_run w (trace s2);
                   s4 = (case run of
                           FFmpegClosed out errorOutput code \<Rightarrow> s3
                         | FFmpegSpawnError m code \<Rightarrow> convert_spawn_failed sourceDesc m s3);
                   s5 = (case input of
                           Str filePath \<Rightarrow> s4
                         | Stream st \<Rightarrow>
                             (case stream_error w (trace s4) of
                                None \<Rightarrow> s4
                              | Some err \<Rightarrow> act (ConsoleError [] (Some err)) (act KillFFmpeg s4)))
               in case run of
                    FFmpegClosed out errorOutput code \<Rightarrow>
                      convert_closed sourceDesc out errorOutput code s5
                  | FFmpegSpawnError m code \<Rightarrow> convert_closed sourceDesc [] [] code s5))"

subsection \<open>Finite mode: publishing a decoded buffer\<close>

definition chunkDurationMs :: nat where
  "chunkDurationMs = 100"

definition samplesPerChunk :: nat where
  "samplesPerChunk = (48000 * chunkDurationMs) div 1000 * 1"

text \<open>
  One pass of the transmission loop's body after the chunk is cut: the frame is handed
  to the transport (a failure is emitted, not thrown), then the loop waits for the
  duration of the chunk. Both are suspension points.
\<close>

definition sendChunk :: "world \<Rightarrow> string \<Rightarrow> pcm \<Rightarrow> nat \<Rightarrow> player \<Rightarrow> nat \<times> player" where
  "sendChunk w src chunk chunksSent s =
     (case captureFrame w src chunk s of
        (None, s1) \<Rightarrow> (chunksSent + 1, suspend w (act (Sleep chunkDurationMs) (suspend w s1)))
      | (Some e, s1) \<Rightarrow>
          (chunksSent,
           suspend w (act (Sleep chunkDurationMs) (emit (ErrorEvent e ''frame-capture'') (suspend w s1)))))"

text \<open>
  The loop \<open>while (offset < volumeAdjustedPCM.length && !this.shouldStop)\<close>; the result is
  \<open>chunksSent\<close> and the player after the loop.
\<close>

function sendLoop :: "world \<Rightarrow> string \<Rightarrow> pcm \<Rightarrow> nat \<Rightarrow> nat \<Rightarrow> player \<Rightarrow> nat \<times> player" where
  "sendLoop w src volumeAdjustedPCM offset chunksSent s =
     (if offset < length volumeAdjustedPCM \<and> \<not> shouldStop s
      then (let chunkEnd = min (offset + samplesPerChunk) (length volumeAdjustedPCM);
                chunk = take (chunkEnd - offset) (drop offset volumeAdjustedPCM);
                r = sendChunk w src chunk chunksSent s
            in sendLoop w src volumeAdjustedPCM chunkEnd (fst r) (snd r))
      else (chunksSent, s))"
  by pat_completeness auto
termination
  by (relation "measure (\<lambda>(w, src, volumeAdjustedPCM, offset, chunksSent, s).
                   length volumeAdjustedPCM - offset)")
     (auto simp: samplesPerChunk_def chunkDurationMs_def)

declare sendLoop.simps [simp del]

text \<open>
  The attempts to unmute and enable the published track, in their \<open>try\<close> block. Each
  call is made only if the object has a function of that name: \<open>setMuted\<close> of the
  publication, else \<open>setMuted\<close> of the track; then, in the finite mode (\<open>enable\<close>),
  \<open>setEnabled\<close> of the track. A call that is made is awaited. \<open>track\<close> is the \<open>sid\<close> of the
  publication.
\<close>

definition unmute_track :: "world \<Rightarrow> string \<Rightarrow> bool \<Rightarrow> player \<Rightarrow> player" where
  "unmute_track w track enable s =
     (let r = (if publication_setMuted w
               then (set_muted w (trace s), suspend w (act (SetMuted track) s))
               else if track_setMuted w
               then (set_muted w (trace s), suspend w (act (TrackSetMuted track) s))
               else (None, s))
      in case fst r of
           Some e \<Rightarrow> emit (ErrorEvent e ''track-unmute'') (snd r)
         | None \<Rightarrow>
             if enable \<and> track_setEnabled w
             then (case set_enabled w (trace (snd r)) of
                     Some e \<Rightarrow>
                       emit (ErrorEvent e ''track-unmute'')
                         (suspend w (act (SetEnabled track) (snd r)))
                   | None \<Rightarrow> suspend w (act (SetEnabled track) (snd r)))
             else snd r)"

text \<open>
  The \<open>catch\<close> of \<open>processAudio\<close>: two lines on the console. Neither \<open>resolve\<close> nor
  \<open>reject\<close> is called, so the promise of \<open>publishPCMAudio\<close> never settles.
\<close>

definition publish_failed :: "js_error \<Rightarrow> player \<Rightarrow> unit outcome \<times> player" where
  "publish_failed e s =
     (Pending,
      act (ConsoleError [] (Some e))
        (act (ConsoleError (cross_mark @ '' ['' @ channelId s @ ''] Failed to publish audio:'')
                (Some e)) s))"

text \<open>
  \<open>processAudio\<close>. The audio source is registered before the track is published; the
  publication is registered after \<open>publishTrack\<close> has been awaited, which is a suspension
  point.
\<close>

definition processAudio :: "world \<Rightarrow> pcm \<Rightarrow> player \<Rightarrow> unit outcome \<times> player" where
  "processAudio w volumeAdjustedPCM s =
     (let sourceId = ''file_'' @ show_nat (now w (trace s));
          s1 = s\<lparr>audioSources := AList.update sourceId (AudioSource 48000 1) (audioSources s)\<rparr>
      in if \<not> local_participant w (trace s1)
         then publish_failed (Error ''Room local participant not available'') s1
         else (case publish_track w (trace s1) of
                 Inl e \<Rightarrow> publish_failed e (suspend w (act (PublishTrack sourceId) s1))
               | Inr None \<Rightarrow>
                   (Pending,
                    act (ConsoleError [] (Some (Error ''Failed to publish audio track'')))
                      (suspend w (act (PublishTrack sourceId) s1)))
               | Inr (Some publication) \<Rightarrow>
                   (let s2 = suspend w (act (PublishTrack sourceId) s1);
                        s3 = s2\<lparr>publications :=
                                  AList.update (sid publication) publication (publications s2)\<rparr>;
                        s4 = emit (TrackPublished (sid publication)) s3;
                        s5 = emit (Debug ''Audio track published successfully'') s4;
                        s6 = unmute_track w (sid publication) True s5;
                        r = sendLoop w sourceId volumeAdjustedPCM 0 0 s6;
                        s7 = emit (Debug (if shouldStop (snd r)
                                          then ''Audio playback stopped by user''
                                          else ''Audio playback completed successfully''))
                               (snd r)
                    in (Resolved (), emit (Debug ''publishPCMAudio resolving'') s7))))"

definition publishPCMAudio :: "world \<Rightarrow> pcm \<Rightarrow> player \<Rightarrow> unit outcome \<times> player" where
  "publishPCMAudio w pcmData s =
     (if room s = None
      then (Rejected (Error (''Not connected to voice channel '' @ channelId s
                              @ ''. Call connect() first.'')), s)
      else processAudio w (applyVolume (fmul w) s pcmData) s)"

definition playFromStream ::
  "world \<Rightarrow> readable \<Rightarrow> string option \<Rightarrow> string option \<Rightarrow> player \<Rightarrow> unit outcome \<times> player" where
  "playFromStream w st source type s =
     await (convertAudioToPCM w (Stream st) 48000 1 (s\<lparr>shouldStop := False, isStreaming := False\<rparr>))
       (\<lambda>pcmData s1.
          await (publishPCMAudio w pcmData (emit (Debug ''PCM conversion completed'') s1))
            (\<lambda>u s2.
               let s3 = emit (Debug ''Audio publishing completed'') s2
               in if truthy source \<and> truthy type
                  then (Resolved (),
                        emit (AudioEnd (the source) (the type))
                          (emit (Debug ''Emitting audioEnd event'') s3))
                  else (Resolved (),
                        emit (Debug ''No source/type provided, skipping audioEnd'') s3)))"

text \<open>The \<open>catch\<close> of \<open>playFromFile\<close>: two events, a line on the console, the error again.\<close>

definition file_failed :: "string \<Rightarrow> js_error \<Rightarrow> player \<Rightarrow> unit outcome \<times> player" where
  "file_failed filePath e s =
     (Rejected e,
      act (ConsoleError (cross_mark @ '' ['' @ channelId s @ ''] File playback failed:'') (Some e))
        (emit (ErrorEvent e ''file-playback'') (emit (AudioError filePath ''file'' e) s)))"

definition catch_file :: "string \<Rightarrow> unit outcome \<times> player \<Rightarrow> unit outcome \<times> player" where
  "catch_file filePath r =
     (case r of
        (Rejected e, s) \<Rightarrow> file_failed filePath e s
      | (Resolved u, s) \<Rightarrow> (Resolved u, s)
      | (Pending, s) \<Rightarrow> (Pending, s))"

definition playFromFile :: "world \<Rightarrow> string \<Rightarrow> player \<Rightarrow> unit outcome \<times> player" where
  "playFromFile w filePath s =
     await (ensure_connected w s)
       (\<lambda>u s1.
          let s2 = s1\<lparr>shouldStop := False, isStreaming := False\<rparr>;
              s3 = emit (AudioStart filePath ''file'') s2;
              s4 = emit (Debug ''Starting file playback'') s3
          in catch_file filePath
               (await (convertAudioToPCM w (Str filePath) 48000 1 s4)
                  (\<lambda>pcmData s5.
                     await (publishPCMAudio w pcmData s5)
                       (\<lambda>u s6.
                          (Resolved (),
                           emit (Debug ''File playback completed'')
                             (emit (AudioEnd filePath ''file'') s6))))))"

subsection \<open>Live mode\<close>

text \<open>
  The chunk callback handed to the streaming decoder: the chunk is dropped when the
  playback is over or stopped; a failing frame is logged unless the playback is over or
  the failure is an \<open>InvalidState\<close>.
\<close>

definition invalidState :: "js_error \<Rightarrow> bool" where
  "invalidState e = (case message e of None \<Rightarrow> False | Some m \<Rightarrow> str_includes m ''InvalidState'')"

definition onChunk :: "world \<Rightarrow> string \<Rightarrow> pcm \<Rightarrow> player \<Rightarrow> player" where
  "onChunk w src pcmChunk s =
     (if \<not> isStreaming s \<or> shouldStop s then s
      else (case captureFrame w src (applyVolume (fmul w) s pcmChunk) s of
              (None, s1) \<Rightarrow> suspend w s1
            | (Some frameError, s1) \<Rightarrow>
                (let s2 = suspend w s1
                 in if \<not> isStreaming s2 \<or> shouldStop s2 then s2
                    else if invalidState frameError then s2
                    else act (ConsoleError ''Error processing audio chunk:'' (Some frameError)) s2)))"

definition onEnd :: "audio_source \<Rightarrow> string option \<Rightarrow> player \<Rightarrow> player" where
  "onEnd source type s =
     (let s1 = s\<lparr>isStreaming := False\<rparr>
      in if truthy type then emit (AudioEndSource source (the type)) s1 else s1)"

definition onError :: "js_error \<Rightarrow> player \<Rightarrow> player" where
  "onError e s = emit (AudioError ''stream'' ''streaming'' e) (s\<lparr>isStreaming := False\<rparr>)"

text \<open>
  Modelled from the spec: \<open>nodeAVProcessor.createAudioStream\<close> (the file \<open>node-av\<close> is not
  among the sources) is \<open>decodeStreaming(source, sampleRate, channels, onChunk, onEnd,
  onError)\<close>: \<open>onChunk\<close> is invoked with the successive chunks in arrival order, each
  awaited before the next, then \<open>onEnd\<close> or \<open>onError\<close>; a failure may also reject the call.
  One call is one decode pipeline on the given stream. The player is suspended while it
  waits for a chunk or for the end.
\<close>

definition createAudioStream ::
  "world \<Rightarrow> readable \<Rightarrow> string \<Rightarrow> audio_source \<Rightarrow> string option \<Rightarrow> player
     \<Rightarrow> unit outcome \<times> player" where
  "createAudioStream w audioStream src source type s =
     (let run = nodeav_stream w (trace s);
          s1 = foldl (\<lambda>st pcmChunk. onChunk w src pcmChunk (suspend w st))
                 (act (NodeAVCreateAudioStream audioStream) s) (fst run);
          s2 = suspend w s1
      in case snd run of
           DecodeEnd \<Rightarrow> (Resolved (), onEnd source type s2)
         | DecodeError e \<Rightarrow> (Resolved (), onError e s2)
         | DecodeRejects e \<Rightarrow> (Rejected e, s2))"

text \<open>
  The branch of \<open>playStreamingAudio\<close> taken when \<open>node-av\<close> is available: the call of
  \<open>createAudioStream\<close> with its three callbacks and the registration of the
  \<open>disconnected\<close> listener stand twice in the source, one after the other.
\<close>

definition register_once :: "bool \<Rightarrow> player \<Rightarrow> player" where
  "register_once kill s = s\<lparr>disconnectedOnce := disconnectedOnce s @ [kill]\<rparr>"

definition stream_with_nodeav ::
  "world \<Rightarrow> readable \<Rightarrow> string \<Rightarrow> audio_source \<Rightarrow> string option \<Rightarrow> player
     \<Rightarrow> unit outcome \<times> player" where
  "stream_with_nodeav w audioStream src source type s =
     await (createAudioStream w audioStream src source type
              (emit (Debug ''Using node-av for streaming audio'') s))
       (\<lambda>u s1. await (createAudioStream w audioStream src source type (register_once False s1))
                  (\<lambda>u s2. (Resolved (), register_once False s2)))"

definition bytesPerChunk :: nat where
  "bytesPerChunk = samplesPerChunk * 2"

text \<open>
  The branch without \<open>node-av\<close>. The handler of the \<open>data\<close> events of the process appends
  to a buffer and sends every complete chunk of it. Here one \<open>data\<close> event is handled to
  its end before the next event.
\<close>

function drain :: "world \<Rightarrow> string \<Rightarrow> 8 word list \<Rightarrow> player \<Rightarrow> 8 word list \<times> player" where
  "drain w src buffer s =
     (if bytesPerChunk \<le> length buffer \<and> isStreaming s \<and> \<not> shouldStop s
      then (let audioChunk = take bytesPerChunk buffer;
                r = captureFrame w src (applyVolume (fmul w) s (pcm_of_bytes audioChunk)) s;
                s1 = suspend w (snd r)
            in case fst r of
                 None \<Rightarrow> drain w src (drop bytesPerChunk buffer) s1
               | Some frameError \<Rightarrow>
                   (let s2 = act (ConsoleError ''Error processing audio chunk:'' (Some frameError)) s1
                    in if \<not> isStreaming s2 \<or> shouldStop s2
                       then (drop bytesPerChunk buffer, s2)
                       else drain w src (drop bytesPerChunk buffer) s2))
      else (buffer, s))"
  by pat_completeness auto
termination
  by (relation "measure (\<lambda>(w, src, buffer, s). length buffer)")
     (auto simp: bytesPerChunk_def samplesPerChunk_def chunkDurationMs_def)

declare drain.simps [simp del]

definition onData :: "world \<Rightarrow> string \<Rightarrow> 8 word list \<times> player \<Rightarrow> 8 word list \<Rightarrow> 8 word list \<times> player" where
  "onData w src bs chunk =
     (if \<not> isStreaming (snd bs) \<or> shouldStop (snd bs) then bs
      else drain w src (fst bs @ chunk) (snd bs))"

text \<open>
  The listeners on the input stream: \<open>error\<close> is passed on as \<open>audioError\<close>, \<open>close\<close> is
  a warning on the console, and \<open>end\<close> during a playback clears \<open>isStreaming\<close> and kills the
  process.
\<close>

definition onStreamEvent ::
  "world \<Rightarrow> string \<Rightarrow> 8 word list \<times> player \<Rightarrow> stream_event \<Rightarrow> 8 word list \<times> player" where
  "onStreamEvent w src bs ev =
     (case ev of
        StdoutData chunk \<Rightarrow> onData w src bs chunk
      | InputError e \<Rightarrow> (fst bs, emit (AudioError ''stream'' ''streaming'' e) (snd bs))
      | InputClose \<Rightarrow>
          (fst bs,
           act (ConsoleWarn (warning_sign @ '' Audio stream closed unexpectedly'')) (snd bs))
      | InputEnd \<Rightarrow>
          (fst bs,
           if isStreaming (snd bs) then act KillFFmpeg ((snd bs)\<lparr>isStreaming := False\<rparr>)
           else snd bs))"

text \<open>The two \<open>close\<close> listeners of the process, in the order of their registration.\<close>

definition onClose :: "audio_source \<Rightarrow> string option \<Rightarrow> int option \<Rightarrow> player \<Rightarrow> unit outcome \<times> player" where
  "onClose source type code s =
     (let s1 = s\<lparr>isStreaming := False\<rparr>;
          s2 = (if code \<noteq> Some 0 \<and> code \<noteq> None
                then emit (AudioError ''stream'' ''streaming''
                             (Error (''FFmpeg exited with code '' @ show_code code))) s1
                else s1);
          s3 = emit (Debug ''FFmpeg streaming ended'') s2;
          s4 = (if truthy type
                then emit (AudioEndSource source (the type))
                       (emit (Debug ''Emitting audioEnd for streaming'') s3)
                else emit (Debug ''No source/type for streaming audioEnd'') s3)
      in if code = Some 0 \<or> code = None then (Resolved (), s4)
         else (Resolved (),
               act (ConsoleWarn (warning_sign @ '' FFmpeg exited with code '' @ show_code code
                                  @ '' - this may be normal for streaming'')) s4))"

text \<open>
  The process is spawned, the listeners are registered, and the promise returned is
  fulfilled by the \<open>close\<close> event of the process. The player is suspended while it waits
  for the next event. No \<open>error\<close> listener is registered on this process; a spawn that
  fails is not considered.
\<close>

definition stream_with_ffmpeg ::
  "world \<Rightarrow> string \<Rightarrow> audio_source \<Rightarrow> string option \<Rightarrow> player \<Rightarrow> unit outcome \<times> player" where
  "stream_with_ffmpeg w src source type s =
     (let s1 = emit (Debug ''node-av not available, using FFmpeg for streaming audio'') s;
          run = ffmpeg_stream w (trace s1);
          s2 = act (SpawnFFmpeg [''-i'', ''pipe:0'', ''-f'', ''s16le'', ''-ar'', show_nat 48000,
                                 ''-ac'', show_nat 1, ''-'']) s1;
          s3 = register_once True s2;
          r = foldl (\<lambda>bs ev. onStreamEvent w src (fst bs, suspend w (snd bs)) ev)
                ([], s3) (fst run)
      in onClose source type (snd run) (suspend w (snd r)))"

text \<open>The \<open>catch\<close> of \<open>playStreamingAudio\<close>: a line on the console, the error again.\<close>

definition streaming_failed :: "js_error \<Rightarrow> player \<Rightarrow> unit outcome \<times> player" where
  "streaming_failed e s =
     (Rejected e,
      act (ConsoleError (cross_mark @ '' ['' @ channelId s @ ''] Failed to set up streaming:'')
             (Some e)) s)"

definition catch_streaming :: "unit outcome \<times> player \<Rightarrow> unit outcome \<times> player" where
  "catch_streaming r =
     (case r of
        (Rejected e, s) \<Rightarrow> streaming_failed e s
      | (Resolved u, s) \<Rightarrow> (Resolved u, s)
      | (Pending, s) \<Rightarrow> (Pending, s))"

text \<open>
  The \<open>try\<close> block of \<open>playStreamingAudio\<close>: the audio source is registered, the track is
  published (a suspension point) and the publication registered, then the stream is
  decoded.
\<close>

definition publish_stream ::
  "world \<Rightarrow> readable \<Rightarrow> string option \<Rightarrow> player \<Rightarrow> unit outcome \<times> player" where
  "publish_stream w audioStream type s =
     (let source = AudioSource 48000 1;
          sourceId = ''stream_'' @ show_nat (now w (trace s));
          s1 = s\<lparr>audioSources := AList.update sourceId source (audioSources s)\<rparr>;
          s2 = suspend w (act (PublishTrack sourceId) s1)
      in case publish_track w (trace s1) of
           Inl e \<Rightarrow> streaming_failed e s2
         | Inr None \<Rightarrow> streaming_failed (Error ''Failed to publish audio track'') s2
         | Inr (Some publication) \<Rightarrow>
             (let s3 = s2\<lparr>publications :=
                           AList.update (sid publication) publication (publications s2)\<rparr>;
                  s4 = emit (TrackPublished (sid publication)) s3;
                  s5 = unmute_track w (sid publication) False s4
              in catch_streaming
                   (if node_av_available w
                    then stream_with_nodeav w audioStream sourceId source type s5
                    else stream_with_ffmpeg w sourceId source type s5)))"

text \<open>
  \<open>playStreamingAudio\<close>. When the room has no local participant yet, it waits a second
  and looks again; reading \<open>this.room.localParticipant\<close> throws a \<open>TypeError\<close> if the room
  is gone by then.
\<close>

definition playStreamingAudio ::
  "world \<Rightarrow> readable \<Rightarrow> string option \<Rightarrow> string option \<Rightarrow> player \<Rightarrow> unit outcome \<times> player" where
  "playStreamingAudio w audioStream source0 type s =
     (let s1 = s\<lparr>shouldStop := False, isStreaming := True\<rparr>
      in if room s1 = None
         then (Rejected (Error (''Not connected to voice channel '' @ channelId s1
                                 @ ''. Call connect() first.'')), s1)
         else if local_participant w (trace s1)
         then publish_stream w audioStream type s1
         else (let s2 = suspend w (act (Sleep 1000) s1)
               in if room s2 = None
                  then (Rejected (Error (''Cannot read properties of undefined ''
                                          @ ''(reading 'localParticipant')'')), s2)
                  else if \<not> local_participant w (trace s2)
                  then (Rejected (Error ''Local participant not available after waiting''), s2)
                  else publish_stream w audioStream type s2))"

subsection \<open>Playing from a URL\<close>

definition isLiveStream :: "string \<Rightarrow> string option \<Rightarrow> string option \<Rightarrow> bool" where
  "isLiveStream url contentTypeHeader contentLength =
     (let contentType = (case contentTypeHeader of None \<Rightarrow> [] | Some c \<Rightarrow> c)
      in \<not> truthy contentLength
         \<or> (str_includes contentType ''audio/mpeg'' \<and> str_includes url ''stream'')
         \<or> str_includes contentType ''application/ogg''
         \<or> str_includes (toLowerCase url) ''radio''
         \<or> str_includes (toLowerCase url) ''stream'')"

text \<open>
  The \<open>catch\<close> handlers that \<open>playFromUrl\<close> chains to the two playbacks: they log and emit,
  and do not settle the promise \<open>playFromUrl\<close> returned.
\<close>

definition url_failed :: "string \<Rightarrow> string \<Rightarrow> string \<Rightarrow> js_error \<Rightarrow> player \<Rightarrow> unit outcome \<times> player" where
  "url_failed url line ctx e s =
     (Pending,
      emit (ErrorEvent e ctx) (emit (AudioError url ''url'' e) (act (ConsoleError line (Some e)) s)))"

text \<open>The \<open>error\<close> listener of the request: a line on the console and \<open>audioError\<close>.\<close>

definition request_failed :: "string \<Rightarrow> js_error \<Rightarrow> player \<Rightarrow> player" where
  "request_failed url e s =
     emit (AudioError url ''url'' e)
       (act (ConsoleError (''Request error: ''
                           @ (case message e of None \<Rightarrow> ''undefined'' | Some m \<Rightarrow> m)) None) s)"

text \<open>
  \<open>playFromUrl\<close>. The promise it returns is fulfilled when the playback of the response
  is; nothing rejects it. On the timeout the request is destroyed and \<open>audioError\<close> is
  emitted; the destroyed request then emits \<open>error\<close>. The player is suspended while it
  waits for the answer.
\<close>

definition playFromUrl :: "world \<Rightarrow> string \<Rightarrow> player \<Rightarrow> unit outcome \<times> player" where
  "playFromUrl w url s =
     await (ensure_connected w s)
       (\<lambda>u s1.
          let s2 = emit (Debug ''Starting URL playback'') (emit (AudioStart url ''url'') s1);
              s3 = suspend w (act (HttpGet url) s2)
          in case http_get w (trace s2) url of
               HttpResponse statusCode contentType contentLength body \<Rightarrow>
                 if statusCode \<noteq> 200
                 then (let m = ''HTTP Error: '' @ show_nat statusCode
                       in (Pending,
                           emit (AudioError url ''url'' (Error m))
                             (act (ConsoleError (''HTTP Error: '' @ m) None) s3)))
                 else if isLiveStream url contentType contentLength
                 then (case playStreamingAudio w body (Some url) (Some ''url'') s3 of
                         (Resolved v, s4) \<Rightarrow>
                           (Resolved (), emit (AudioEndUrl ''URL playback completed'' url) s4)
                       | (Rejected e, s4) \<Rightarrow>
                           url_failed url ''Error streaming audio from URL:'' ''url-streaming'' e s4
                       | (Pending, s4) \<Rightarrow> (Pending, s4))
                 else (case playFromStream w body (Some url) (Some ''url'') s3 of
                         (Resolved v, s4) \<Rightarrow>
                           (Resolved (), emit (Debug ''URL playback completed'') s4)
                       | (Rejected e, s4) \<Rightarrow>
                           url_failed url ''Error playing audio from URL:'' ''url-standard'' e s4
                       | (Pending, s4) \<Rightarrow> (Pending, s4))
             | HttpRequestError e \<Rightarrow> (Pending, request_failed url e s3)
             | HttpTimeout e \<Rightarrow>
                 (Pending,
                  request_failed url e
                    (emit (AudioError url ''url'' (Error ''Request timeout'')) s3)))"

subsection \<open>The input classifier and \<open>play\<close>\<close>

text \<open>
  \<open>isUrl\<close>: \<open>new URL(input)\<close> gives the protocol of an absolute URL or throws (the oracle
  \<open>parse_url\<close>). \<open>isFilePath\<close>: \<open>existsSync(input)\<close>.
\<close>

definition isUrl :: "world \<Rightarrow> string \<Rightarrow> bool" where
  "isUrl w input =
     (case parse_url w input of
        None \<Rightarrow> False
      | Some protocol \<Rightarrow> protocol = ''http:'' \<or> protocol = ''https:'')"

definition isFilePath :: "world \<Rightarrow> action list \<Rightarrow> string \<Rightarrow> bool" where
  "isFilePath w tr input = exists_sync w tr input"

definition quote :: string where
  "quote = [CHR 0x27]"

definition invalid_input :: "string \<Rightarrow> js_error" where
  "invalid_input input =
     Error (''Invalid input: '' @ quote @ input @ quote
            @ '' is neither a valid URL nor an existing file path'')"

definition play :: "world \<Rightarrow> play_input \<Rightarrow> player \<Rightarrow> unit outcome \<times> player" where
  "play w input s =
     (case input of
        Stream st \<Rightarrow>
          playFromStream w st (Some ''stream'') (Some ''stream'')
            (emit (AudioStart ''stream'' ''stream'') (emit (Debug ''Auto-detected stream input'') s))
      | Str str \<Rightarrow>
          if isUrl w str then playFromUrl w str (emit (Debug ''Auto-detected URL input'') s)
          else if isFilePath w (trace s) str
          then playFromFile w str (emit (Debug ''Auto-detected file path input'') s)
          else (Rejected (invalid_input str), s))"

text \<open>
  The classifier as the specification words it: a stream handle is \<open>stream\<close>; a string is
  \<open>url\<close> if it parses as an absolute URL with scheme http or https, otherwise \<open>file\<close> if it
  names an existing filesystem entry, otherwise classification fails with
  \<open>InvalidInput\<close>.
\<close>

datatype source_kind = KindStream | KindUrl | KindFile

datatype classify_error = InvalidInput

definition classify_spec :: "world \<Rightarrow> action list \<Rightarrow> play_input \<Rightarrow> classify_error + source_kind" where
  "classify_spec w tr input =
     (case input of
        Stream st \<Rightarrow> Inr KindStream
      | Str str \<Rightarrow>
          if parse_url w str = Some ''http:'' \<or> parse_url w str = Some ''https:'' then Inr KindUrl
          else if exists_sync w tr str then Inr KindFile
          else Inl InvalidInput)"

subsection \<open>Observations on a trace and on the fields\<close>

text \<open>The frames handed to the transport, in order.\<close>

definition frames :: "action list \<Rightarrow> pcm list" where
  "frames tr = concat (map (\<lambda>a. case a of CaptureFrame src frame \<Rightarrow> [frame] | _ \<Rightarrow> []) tr)"

text \<open>The requests sent to the signaling endpoint, in order.\<close>

definition is_request :: "action \<Rightarrow> bool" where
  "is_request a = (case a of ApiPost ch node force \<Rightarrow> True | ApiDelete ch \<Rightarrow> True | _ \<Rightarrow> False)"

definition requests :: "action list \<Rightarrow> action list" where
  "requests tr = filter is_request tr"


text \<open>
  What \<open>stop\<close> reports for the track under key \<open>k\<close>: the event \<open>trackStopped\<close>, or the
  console line of a failed unpublish with its error.
\<close>

definition stop_reported :: "string \<Rightarrow> string \<Rightarrow> action \<Rightarrow> bool" where
  "stop_reported ch k a =
     (case a of
        Emit ev \<Rightarrow> ev = TrackStopped k
      | ConsoleError line err \<Rightarrow>
          err \<noteq> None
          \<and> line = cross_mark @ '' ['' @ ch @ ''] Failed to stop track '' @ k @ '':''
      | _ \<Rightarrow> False)"

text \<open>The successive chunks of a buffer from an offset on, as the transmission loop cuts them.\<close>

function chunks_from :: "nat \<Rightarrow> pcm \<Rightarrow> pcm list" where
  "chunks_from offset volumeAdjustedPCM =
     (if offset < length volumeAdjustedPCM
      then take (min (offset + samplesPerChunk) (length volumeAdjustedPCM) - offset)
             (drop offset volumeAdjustedPCM)
           # chunks_from (min (offset + samplesPerChunk) (length volumeAdjustedPCM))
               volumeAdjustedPCM
      else [])"
  by pat_completeness auto
termination
  by (relation "measure (\<lambda>(offset, volumeAdjustedPCM). length volumeAdjustedPCM - offset)")
     (auto simp: samplesPerChunk_def chunkDurationMs_def)

declare chunks_from.simps [simp del]

subsection \<open>Concrete collaborators\<close>

text \<open>The product of a sample and a level without rounding, for concrete runs.\<close>

definition exact_mul :: "int \<Rightarrow> real \<Rightarrow> real" where
  "exact_mul x v = real_of_int x * v"

definition test_grant :: grant where
  "test_grant = \<lparr>grant_token = ''token'', grant_url = ''wss://relay''\<rparr>"

text \<open>
  A world in which every collaborator succeeds, the connection is never lost and the
  host never interferes.
\<close>

definition calm_world :: world where
  "calm_world =
     \<lparr>voice_nodes = None,
      api_post = (\<lambda>tr ch node force. Inr test_grant),
      api_delete = (\<lambda>tr ch. None),
      room_connect = (\<lambda>tr url token. Inr ''room''),
      room_disconnect = (\<lambda>tr. None),
      local_participant = (\<lambda>tr. True),
      publish_track = (\<lambda>tr. Inr (Some (Publication ''TR_1''))),
      unpublish_track = (\<lambda>tr track. None),
      publication_setMuted = True,
      track_setMuted = False,
      track_setEnabled = True,
      set_muted = (\<lambda>tr. None),
      set_enabled = (\<lambda>tr. None),
      capture_frame = (\<lambda>tr frame. None),
      transport_drop = (\<lambda>tr. False),
      host_stop = (\<lambda>tr. None),
      now = (\<lambda>tr. 7),
      fmul = exact_mul,
      node_av_available = False,
      nodeav_convert = (\<lambda>tr. Inr []),
      nodeav_stream = (\<lambda>tr. ([], DecodeEnd)),
      ffmpeg_run = (\<lambda>tr. FFmpegClosed [] [] (Some 0)),
      stream_error = (\<lambda>tr. None),
      ffmpeg_stream = (\<lambda>tr. ([], Some 0)),
      parse_url = (\<lambda>input. None),
      exists_sync = (\<lambda>tr path. False),
      http_get = (\<lambda>tr url. HttpTimeout (Error ''socket hang up''))\<rparr>"

text \<open>The player of channel \<open>vc\<close> after a successful \<open>connect()\<close>.\<close>

definition joined :: "world \<Rightarrow> player" where
  "joined w = snd (connect w None (new_player ''vc'' ''srv''))"

text \<open>The player of channel \<open>vc\<close> after a successful \<open>connect("other")\<close>.\<close>

definition joined_other :: player where
  "joined_other = snd (connect calm_world (Some ''other'') (new_player ''vc'' ''srv''))"

definition already_connected :: js_error where
  "already_connected = JsError (Some ''AlreadyConnected'') None"

text \<open>The endpoint holds a stale grant until it is released.\<close>

definition stale_grant_world :: world where
  "stale_grant_world =
     calm_world\<lparr>api_post := (\<lambda>tr ch node force.
        if ApiDelete ch \<in> set tr then Inr test_grant else Inl already_connected)\<rparr>"

text \<open>The endpoint gives way to the force flag only.\<close>

definition force_only_world :: world where
  "force_only_world =
     calm_world\<lparr>api_post := (\<lambda>tr ch node force.
        if force then Inr test_grant else Inl already_connected)\<rparr>"

text \<open>The endpoint refuses every request.\<close>

definition held_world :: world where
  "held_world =
     calm_world\<lparr>api_post := (\<lambda>tr ch node force. Inl already_connected),
                api_delete := (\<lambda>tr ch. Some (Error ''Forbidden''))\<rparr>"

definition handshake_error :: js_error where
  "handshake_error = Error ''could not establish signal connection''"

text \<open>The transport handshake fails.\<close>

definition no_handshake :: "world \<Rightarrow> world" where
  "no_handshake w = w\<lparr>room_connect := (\<lambda>tr url token. Inl handshake_error)\<rparr>"

text \<open>
  The file exists, \<open>node-av\<close> is absent and \<open>ffmpeg\<close> exits with status 1.
\<close>

definition bad_file_world :: world where
  "bad_file_world =
     calm_world\<lparr>exists_sync := (\<lambda>tr path. path = ''/music/a.mp3''),
                ffmpeg_run := (\<lambda>tr. FFmpegClosed [] ''Invalid data found when processing input''
                                       (Some 1))\<rparr>"

text \<open>The file decodes, and the transport returns no publication.\<close>

definition no_track_world :: world where
  "no_track_world =
     calm_world\<lparr>exists_sync := (\<lambda>tr path. path = ''/music/a.mp3''),
                publish_track := (\<lambda>tr. Inr None)\<rparr>"

text \<open>\<open>node-av\<close> is present and decodes the stream into two chunks.\<close>

definition nodeav_world :: world where
  "nodeav_world =
     calm_world\<lparr>node_av_available := True,
                nodeav_stream := (\<lambda>tr. ([[1, 2], [3, 4]], DecodeEnd))\<rparr>"

text \<open>The host calls \<open>stop()\<close> once two frames have been handed over.\<close>

definition stopping_world :: world where
  "stopping_world =
     calm_world\<lparr>host_stop := (\<lambda>tr. if length (frames tr) = 2 then Some None else None)\<rparr>"

text \<open>
  The file decodes into two samples; the connection is lost while \<open>publishTrack\<close> is
  awaited, and the transport then fulfils the call with a publication. The publication
  and the track have neither \<open>setMuted\<close> nor \<open>setEnabled\<close>.
\<close>

definition drop_world :: world where
  "drop_world =
     calm_world\<lparr>exists_sync := (\<lambda>tr path. path = ''/music/a.mp3''),
                ffmpeg_run := (\<lambda>tr. FFmpegClosed [1, 0, 2, 0] [] (Some 0)),
                publication_setMuted := False,
                track_setEnabled := False,
                transport_drop := (\<lambda>tr. tr \<noteq> [] \<and> last tr = PublishTrack ''file_7'')\<rparr>"

text \<open>The player after that playback.\<close>

definition dropped :: player where
  "dropped = snd (play drop_world (Str ''/music/a.mp3'') (joined drop_world))"

text \<open>A world with one web address and one file.\<close>

definition library_world :: world where
  "library_world =
     calm_world\<lparr>parse_url := (\<lambda>input.
                   if input = ''https://example.com/a.mp3'' then Some ''https:''
                   else if input = ''ftp://example.com/a.mp3'' then Some ''ftp:''
                   else None),
                exists_sync := (\<lambda>tr path. path = ''/music/a.mp3'')\<rparr>"

section \<open>Verified properties\<close>

subsection \<open>Auxiliary facts\<close>

lemma volume_act [simp]: "volume (act a s) = volume s"
  by (simp add: act_def)

lemma volume_emit [simp]: "volume (emit e s) = volume s"
  by (simp add: emit_def)

lemma applyVolume_loop_eq:
  "i \<le> length pcmData \<Longrightarrow> length result = length pcmData \<Longrightarrow>
   applyVolume_loop mul v pcmData result i =
     take i result @
     map (\<lambda>x. word_of_int (max (- 32768) (min 32767 (js_round (mul (sint x) v)))))
       (drop i pcmData)"
proof (induction mul v pcmData result i rule: applyVolume_loop.induct)
  case (1 mul v pcmData result i)
  show ?case
  proof (cases "i < length pcmData")
    case True
    with 1 show ?thesis
      by (subst applyVolume_loop.simps)
         (simp add: take_Suc_conv_app_nth Cons_nth_drop_Suc [symmetric])
  next
    case False
    with 1 show ?thesis
      by (subst applyVolume_loop.simps) simp
  qed
qed

lemma sint_clamped:
  "sint (word_of_int (max (- 32768) (min 32767 x)) :: 16 word) = clamp16 x"
  by (simp add: clamp16_def int_word_sint max_def min_def)

lemma js_round_round: "js_round = round"
  by (simp add: fun_eq_iff js_round_def round_def)

subsection \<open>Volume processing\<close>

text \<open>
  Claim C5. \<open>applyVolume\<close> is its reference definition. On the sample values the result
  is the specification's function of the level and the input alone: at level 1 the input
  itself, otherwise a list of the same length whose i-th sample is the product of the
  i-th input sample and the level, rounded and clamped to the signed 16-bit range (the
  conversion to 16 bits never wraps). Every output sample lies between -32768 and
  32767. The function returns no new player: of the session it reads the level only, and
  the input list is a value that nothing can change. This holds for every level, so for
  those between 0 and 2, and for whatever number the floating-point product yields.
\<close>

theorem applyVolume_refines_spec:
  "map sint (applyVolume mul s pcmData) = applyVolume_spec mul (volume s) (map sint pcmData)
   \<and> (volume s = 1 \<longrightarrow> applyVolume mul s pcmData = pcmData)
   \<and> length (applyVolume mul s pcmData) = length pcmData
   \<and> (\<forall>i < length pcmData. volume s \<noteq> 1 \<longrightarrow>
         sint (applyVolume mul s pcmData ! i)
           = clamp16 (round (mul (sint (pcmData ! i)) (volume s))))
   \<and> (\<forall>x \<in> set (applyVolume mul s pcmData). - 32768 \<le> sint x \<and> sint x \<le> 32767)"
proof -
  have loop:
    "applyVolume_loop mul (volume s) pcmData (replicate (length pcmData) 0) 0 =
       map (\<lambda>x. word_of_int (max (- 32768) (min 32767 (js_round (mul (sint x) (volume s))))))
         pcmData"
    by (simp add: applyVolume_loop_eq)
  have a: "map sint (applyVolume mul s pcmData)
             = applyVolume_spec mul (volume s) (map sint pcmData)"
    by (simp add: applyVolume_def applyVolume_spec_def loop sint_clamped js_round_round comp_def)
  have b: "volume s = 1 \<longrightarrow> applyVolume mul s pcmData = pcmData"
    by (simp add: applyVolume_def)
  have c: "length (applyVolume mul s pcmData) = length pcmData"
    by (simp add: applyVolume_def loop)
  have d: "\<forall>i < length pcmData. volume s \<noteq> 1 \<longrightarrow>
             sint (applyVolume mul s pcmData ! i)
               = clamp16 (round (mul (sint (pcmData ! i)) (volume s)))"
    by (simp add: applyVolume_def loop sint_clamped js_round_round)
  have e: "\<forall>x \<in> set (applyVolume mul s pcmData). - 32768 \<le> sint x \<and> sint x \<le> 32767"
  proof
    fix x :: "16 word"
    have "- (2 ^ (LENGTH(16) - 1)) \<le> sint x"
      by (rule sint_ge)
    moreover have "sint x < 2 ^ (LENGTH(16) - 1)"
      by (rule sint_lt)
    ultimately show "- 32768 \<le> sint x \<and> sint x \<le> 32767"
      by simp
  qed
  from a b c d e show ?thesis
    by blast
qed

theorem applyVolume_refines_spec_witness:
  "map sint (applyVolume exact_mul (setVolume (3 / 2) (new_player ''vc'' ''srv''))
       [30000, - 100, 1])
     = [32767, - 150, 2]
   \<and> applyVolume exact_mul (new_player ''vc'' ''srv'') [30000, - 100, 1] = [30000, - 100, 1]
   \<and> sint (applyVolume exact_mul (setVolume (3 / 2) (new_player ''vc'' ''srv''))
             [30000, - 100, 1] ! 0) = 32767"
proof -
  have level: "volume (setVolume (3 / 2) (new_player ''vc'' ''srv'')) = 3 / 2"
    by (simp add: setVolume_def new_player_def Let_def)
  show ?thesis
    using applyVolume_refines_spec
            [of exact_mul "setVolume (3 / 2) (new_player ''vc'' ''srv'')" "[30000, - 100, 1]"]
          applyVolume_refines_spec
            [of exact_mul "new_player ''vc'' ''srv''" "[30000, - 100, 1]"]
    apply (simp add: level applyVolume_spec_def exact_mul_def clamp16_def round_def)
    apply (simp add: new_player_def)
    done
qed

subsection \<open>Mute and unmute\<close>

text \<open>
  Claim C10. \<open>unmute\<close> sets the level to 1 exactly when the level is 0 (emitting the
  events of \<open>setVolume\<close> and \<open>unmuted\<close>); at any other level it changes no field and emits
  nothing. After \<open>mute\<close> and then \<open>unmute\<close> the level is 1 whatever it was before, so a
  level other than 1 is not restored.
\<close>

theorem unmute_only_from_zero:
  "(volume s = 0 \<longrightarrow>
      volume (unmute s) = 1
      \<and> trace (unmute s)
          = trace s @ [Emit (DebugVolume 0 1), Emit (VolumeChanged 0 1), Emit (Unmuted 1)])
   \<and> (volume s \<noteq> 0 \<longrightarrow> unmute s = s)
   \<and> volume (unmute (mute s)) = 1
   \<and> (volume s \<noteq> 1 \<longrightarrow> volume (unmute (mute s)) \<noteq> volume s)"
  by (simp add: unmute_def mute_def setVolume_def Let_def emit_def act_def)

theorem unmute_only_from_zero_witness:
  "volume (mute (new_player ''vc'' ''srv'')) = 0
   \<and> volume (unmute (mute (new_player ''vc'' ''srv''))) = 1
   \<and> volume (setVolume (1 / 2) (new_player ''vc'' ''srv'')) = 1 / 2
   \<and> unmute (setVolume (1 / 2) (new_player ''vc'' ''srv''))
       = setVolume (1 / 2) (new_player ''vc'' ''srv'')
   \<and> volume (unmute (mute (setVolume (1 / 2) (new_player ''vc'' ''srv'')))) = 1"
  using unmute_only_from_zero [of "mute (new_player ''vc'' ''srv'')"]
        unmute_only_from_zero [of "setVolume (1 / 2) (new_player ''vc'' ''srv'')"]
  by (simp add: mute_def setVolume_def new_player_def Let_def)

subsection \<open>Facts about the trace and the fields\<close>

lemma trace_act [simp]: "trace (act a s) = trace s @ [a]"
  by (simp add: act_def)

lemma trace_emit [simp]: "trace (emit e s) = trace s @ [Emit e]"
  by (simp add: emit_def)

lemma act_fields [simp]:
  "room (act a s) = room s" "isConnected (act a s) = isConnected s"
  "publications (act a s) = publications s" "audioSources (act a s) = audioSources s"
  "channelId (act a s) = channelId s" "serverId (act a s) = serverId s"
  "shouldStop (act a s) = shouldStop s" "isStreaming (act a s) = isStreaming s"
  "disconnectedOnce (act a s) = disconnectedOnce s"
  by (simp_all add: act_def)

lemma emit_fields [simp]:
  "room (emit e s) = room s" "isConnected (emit e s) = isConnected s"
  "publications (emit e s) = publications s" "audioSources (emit e s) = audioSources s"
  "channelId (emit e s) = channelId s" "serverId (emit e s) = serverId s"
  "shouldStop (emit e s) = shouldStop s" "isStreaming (emit e s) = isStreaming s"
  "disconnectedOnce (emit e s) = disconnectedOnce s"
  by (simp_all add: emit_def)

lemma requests_append [simp]: "requests (xs @ ys) = requests xs @ requests ys"
  by (simp add: requests_def)

lemma requests_Nil [simp]: "requests [] = []"
  by (simp add: requests_def)

lemma requests_Cons [simp]:
  "requests (a # xs) =
     (case a of ApiPost ch node force \<Rightarrow> [a] | ApiDelete ch \<Rightarrow> [a] | _ \<Rightarrow> []) @ requests xs"
  by (simp add: requests_def is_request_def split: action.splits)

lemma frames_append [simp]: "frames (xs @ ys) = frames xs @ frames ys"
  by (simp add: frames_def)

lemma frames_Nil [simp]: "frames [] = []"
  by (simp add: frames_def)

lemma frames_Cons [simp]:
  "frames (a # xs) = (case a of CaptureFrame src f \<Rightarrow> [f] | _ \<Rightarrow> []) @ frames xs"
  by (simp add: frames_def)

lemma once_shape:
  "\<exists>ys. foldl (\<lambda>st kill. if kill then act KillFFmpeg (st\<lparr>isStreaming := False\<rparr>)
                          else st\<lparr>isStreaming := False\<rparr>) s ks
          = s\<lparr>isStreaming := (if ks = [] then isStreaming s else False),
              trace := trace s @ ys\<rparr>
        \<and> frames ys = [] \<and> requests ys = [] \<and> (ks = [] \<longrightarrow> ys = [])"
proof (induction ks arbitrary: s)
  case Nil
  have "foldl (\<lambda>st kill. if kill then act KillFFmpeg (st\<lparr>isStreaming := False\<rparr>)
                          else st\<lparr>isStreaming := False\<rparr>) s []
          = s\<lparr>isStreaming := (if [] = ([] :: bool list) then isStreaming s else False),
              trace := trace s @ []\<rparr>
        \<and> frames [] = [] \<and> requests [] = [] \<and> (([] :: bool list) = [] \<longrightarrow> [] = ([] :: action list))"
    by simp
  then show ?case
    by blast
next
  case (Cons k ks)
  let ?s1 = "if k then act KillFFmpeg (s\<lparr>isStreaming := False\<rparr>) else s\<lparr>isStreaming := False\<rparr>"
  from Cons.IH [of ?s1] obtain ys where
    ys: "foldl (\<lambda>st kill. if kill then act KillFFmpeg (st\<lparr>isStreaming := False\<rparr>)
                          else st\<lparr>isStreaming := False\<rparr>) ?s1 ks
          = ?s1\<lparr>isStreaming := (if ks = [] then isStreaming ?s1 else False),
                trace := trace ?s1 @ ys\<rparr>"
      "frames ys = []" "requests ys = []"
    by blast
  have "foldl (\<lambda>st kill. if kill then act KillFFmpeg (st\<lparr>isStreaming := False\<rparr>)
                          else st\<lparr>isStreaming := False\<rparr>) s (k # ks)
          = s\<lparr>isStreaming := (if k # ks = [] then isStreaming s else False),
              trace := trace s @ ((if k then [KillFFmpeg] else []) @ ys)\<rparr>
        \<and> frames ((if k then [KillFFmpeg] else []) @ ys) = []
        \<and> requests ((if k then [KillFFmpeg] else []) @ ys) = []
        \<and> (k # ks = [] \<longrightarrow> (if k then [KillFFmpeg] else []) @ ys = [])"
    using ys by (simp add: act_def)
  then show ?case
    by blast
qed

lemma run_once_shape:
  "\<exists>ys. run_once s
          = s\<lparr>isStreaming := (if disconnectedOnce s = [] then isStreaming s else False),
              disconnectedOnce := [], trace := trace s @ ys\<rparr>
        \<and> frames ys = [] \<and> requests ys = [] \<and> (disconnectedOnce s = [] \<longrightarrow> ys = [])"
proof -
  from once_shape [of s "disconnectedOnce s"] obtain ys where
    ys: "foldl (\<lambda>st kill. if kill then act KillFFmpeg (st\<lparr>isStreaming := False\<rparr>)
                          else st\<lparr>isStreaming := False\<rparr>) s (disconnectedOnce s)
          = s\<lparr>isStreaming := (if disconnectedOnce s = [] then isStreaming s else False),
              trace := trace s @ ys\<rparr>"
      "frames ys = []" "requests ys = []" "disconnectedOnce s = [] \<longrightarrow> ys = []"
    by blast
  have "run_once s
          = s\<lparr>isStreaming := (if disconnectedOnce s = [] then isStreaming s else False),
              disconnectedOnce := [], trace := trace s @ ys\<rparr>"
    by (simp add: run_once_def ys(1))
  with ys(2-4) show ?thesis
    by blast
qed

lemma run_once_fields [simp]:
  "room (run_once s) = room s" "isConnected (run_once s) = isConnected s"
  "publications (run_once s) = publications s" "audioSources (run_once s) = audioSources s"
  "channelId (run_once s) = channelId s" "serverId (run_once s) = serverId s"
  "shouldStop (run_once s) = shouldStop s" "volume (run_once s) = volume s"
  "disconnectedOnce (run_once s) = []"
  "frames (trace (run_once s)) = frames (trace s)"
  "requests (trace (run_once s)) = requests (trace s)"
  using run_once_shape [of s] by auto

lemma run_once_idle [simp]: "disconnectedOnce s = [] \<Longrightarrow> run_once s = s"
  by (simp add: run_once_def)

lemma emit_disconnected_fields [simp]:
  "room (emit_disconnected reason s) = room s"
  "isConnected (emit_disconnected reason s) = isConnected s"
  "publications (emit_disconnected reason s) = publications s"
  "audioSources (emit_disconnected reason s) = audioSources s"
  "channelId (emit_disconnected reason s) = channelId s"
  "serverId (emit_disconnected reason s) = serverId s"
  "shouldStop (emit_disconnected reason s) = shouldStop s"
  "volume (emit_disconnected reason s) = volume s"
  "frames (trace (emit_disconnected reason s)) = frames (trace s)"
  by (simp_all add: emit_disconnected_def)

lemma emit_disconnected_idle:
  "disconnectedOnce s = [] \<Longrightarrow>
   emit_disconnected reason s = emit (Disconnected (channelId s) (serverId s) reason) s"
  by (simp add: emit_disconnected_def)

lemma conflict_message_guidance:
  "startsWith conflict_message ''Unable to join voice channel''
   \<and> str_includes conflict_message ''Solutions to try:''"
  by (simp add: conflict_message_def nl_def bullet_def)

lemma isAlreadyConnected_already_connected: "isAlreadyConnected already_connected"
  by (simp add: isAlreadyConnected_def already_connected_def)

lemmas connect_defs =
  connect_def Let_def negotiate_def join_call_def post_join_def release_and_retry_def
  force_join_def open_room_def connect_failed_def selectedNode_def channelToConnect_def

lemma joined_calm:
  "joined calm_world =
     \<lparr>channelId = ''vc'', serverId = ''srv'', volume = 1, room = Some (Room 2),
      publications = [], audioSources = [], isConnected = True, shouldStop = False,
      isStreaming = False, disconnectedOnce = [],
      trace = [Emit (Debug ''Starting connection''), ApiPost ''vc'' ''worldwide'' False,
               NewRoom (Room 2), RoomConnect (Room 2) ''wss://relay'' ''token'',
               Emit (Connected ''vc'' ''srv'' ''room''), Emit (Debug ''Connection established'')]\<rparr>"
  by (simp add: joined_def connect_defs calm_world_def new_player_def test_grant_def
      act_def emit_def)

lemma show_facts:
  "show_nat 48000 = ''48000''" "show_nat (Suc 0) = ''1''" "show_nat 7 = ''7''"
  "show_nat 8 = ''8''" "show_code (Some 1) = ''1''"
  by (simp_all add: show_nat.simps show_code_def show_int_def)

subsection \<open>Connecting twice\<close>

lemma connect_own_channel_noop:
  "isConnected s \<Longrightarrow> channelToConnect targetChannelId s = channelId s \<Longrightarrow>
   connect w targetChannelId s = (Resolved (), s)"
  by (simp add: connect_def Let_def)

lemma joined_other_calm:
  "joined_other =
     \<lparr>channelId = ''vc'', serverId = ''srv'', volume = 1, room = Some (Room 2),
      publications = [], audioSources = [], isConnected = True, shouldStop = False,
      isStreaming = False, disconnectedOnce = [],
      trace = [Emit (Debug ''Starting connection''), ApiPost ''other'' ''worldwide'' False,
               NewRoom (Room 2), RoomConnect (Room 2) ''wss://relay'' ''token'',
               Emit (Connected ''other'' ''srv'' ''room''), Emit (Debug ''Connection established'')]\<rparr>"
  by (simp add: joined_other_def connect_defs calm_world_def new_player_def test_grant_def
      act_def emit_def)

text \<open>
  Claim C8, evaluated where the code departs from it. \<open>connect\<close> compares the channel it is
  asked for with the stored \<open>channelId\<close>. For a player connected to its own channel the
  second call is the no-op of the claim: it is fulfilled and returns the player as it
  was. But a player created for \<open>vc\<close> and connected by \<open>connect("other")\<close> keeps \<open>vc\<close> as
  its \<open>channelId\<close>: the field is written only when a connected player changes channel.
  Calling \<open>connect("other")\<close> again then takes the branch for a different channel: the
  room is disconnected, \<open>disconnected\<close> is emitted for \<open>vc\<close>, and a second join request for
  \<open>other\<close> goes to the signaling endpoint.
\<close>

theorem connect_again_renegotiates:
  "connect calm_world (Some ''vc'') (joined calm_world) = (Resolved (), joined calm_world)
   \<and> connect calm_world (Some ''other'') (new_player ''vc'' ''srv'') = (Resolved (), joined_other)
   \<and> connected joined_other
   \<and> requests (trace joined_other) = [ApiPost ''other'' ''worldwide'' False]
   \<and> channelId joined_other = ''vc''
   \<and> fst (connect calm_world (Some ''other'') joined_other) = Resolved ()
   \<and> trace (snd (connect calm_world (Some ''other'') joined_other))
      = trace joined_other
        @ [RoomDisconnect (Room 2), Emit (Disconnected ''vc'' ''srv'' ''manual''),
           Emit (Debug ''Disconnected manually''),
           Emit (Debug ''Starting connection''), ApiPost ''other'' ''worldwide'' False,
           NewRoom (Room 11), RoomConnect (Room 11) ''wss://relay'' ''token'',
           Emit (Connected ''other'' ''srv'' ''room''), Emit (Debug ''Connection established'')]
   \<and> channelId (snd (connect calm_world (Some ''other'') joined_other)) = ''other''"
proof -
  have a: "connect calm_world (Some ''vc'') (joined calm_world) = (Resolved (), joined calm_world)"
    by (simp add: connect_own_channel_noop joined_calm channelToConnect_def)
  have b: "connect calm_world (Some ''other'') (new_player ''vc'' ''srv'') = (Resolved (), joined_other)"
    unfolding joined_other_calm
    by (simp add: connect_defs calm_world_def new_player_def test_grant_def act_def emit_def)
  have c: "connected joined_other" "channelId joined_other = ''vc''"
    "requests (trace joined_other) = [ApiPost ''other'' ''worldwide'' False]"
    by (simp_all add: joined_other_calm connected_def)
  have d: "connect calm_world (Some ''other'') joined_other =
      (Resolved (), joined_other\<lparr>channelId := ''other'', room := Some (Room 11),
         shouldStop := True,
         trace := trace joined_other
        @ [RoomDisconnect (Room 2), Emit (Disconnected ''vc'' ''srv'' ''manual''),
           Emit (Debug ''Disconnected manually''),
           Emit (Debug ''Starting connection''), ApiPost ''other'' ''worldwide'' False,
           NewRoom (Room 11), RoomConnect (Room 11) ''wss://relay'' ''token'',
           Emit (Connected ''other'' ''srv'' ''room''), Emit (Debug ''Connection established'')]\<rparr>)"
    unfolding joined_other_calm
    by (simp add: connect_defs calm_world_def test_grant_def act_def emit_def disconnect_def
        stop_def emit_disconnected_def run_once_def)
  show ?thesis
    using a b c by (simp add: d)
qed

subsection \<open>A handshake that fails\<close>

text \<open>
  Claim C6, evaluated where the code departs from it. On a new player, in a world where
  the join succeeds and the transport handshake fails, \<open>connect\<close> is rejected with the
  error of the handshake and the player is not connected; but the field \<open>room\<close> still
  holds the \<open>Room\<close> that was created, which a new player does not have. A later
  \<open>disconnect\<close> shows the difference: on a new player it does nothing, on this player
  it disconnects the left-over room and emits \<open>disconnected\<close>.
\<close>

theorem connect_failed_handshake_keeps_room:
  "fst (connect (no_handshake calm_world) None (new_player ''vc'' ''srv'')) = Rejected handshake_error
   \<and> \<not> connected (snd (connect (no_handshake calm_world) None (new_player ''vc'' ''srv'')))
   \<and> room (new_player ''vc'' ''srv'') = None
   \<and> room (snd (connect (no_handshake calm_world) None (new_player ''vc'' ''srv''))) = Some (Room 2)
   \<and> disconnect calm_world (new_player ''vc'' ''srv'') = (Resolved (), new_player ''vc'' ''srv'')
   \<and> trace (snd (disconnect calm_world
                   (snd (connect (no_handshake calm_world) None (new_player ''vc'' ''srv'')))))
      = trace (snd (connect (no_handshake calm_world) None (new_player ''vc'' ''srv'')))
        @ [RoomDisconnect (Room 2), Emit (Disconnected ''vc'' ''srv'' ''manual''),
           Emit (Debug ''Disconnected manually'')]"
  by (simp add: connect_defs connected_def no_handshake_def calm_world_def new_player_def
      test_grant_def disconnect_def stop_def emit_disconnected_def run_once_def)

subsection \<open>Recovery from a conflict\<close>

text \<open>
  Claim C2. Let \<open>connect\<close> reach the negotiation (the player is not connected, or it is
  connected to another channel and the implicit disconnect is fulfilled), and let the
  first join request fail with an \<open>AlreadyConnected\<close> conflict. Then the recovery runs in
  order and stops at the first success:
  \<^item> if the release (\<open>DELETE\<close> on the same channel) and the join after it succeed, the
    requests are the join, the release and the join again, and no request carries the
    force flag; with the grant obtained the transport handshake follows, and when it
    succeeds \<open>connect\<close> is fulfilled and the session is connected;
  \<^item> if the release or the join after it fails, one join with the force flag follows,
    and when it succeeds the session is connected after the handshake in the same way;
  \<^item> if the forced join fails too, \<open>connect\<close> is rejected with the conflict error whose
    message carries the advice; after the forced join only the \<open>error\<close> event and the
    console line follow, so nothing is retried, and the player is not connected.
\<close>

theorem conflict_recovery_order:
  fixes w :: world and s :: player and node :: string and targetChannelId :: "string option"
  defines "ch \<equiv> channelToConnect targetChannelId s"
  defines "s0 \<equiv> (if isConnected s then (snd (disconnect w s))\<lparr>channelId := ch\<rparr> else s)"
  defines "t0 \<equiv> trace s0 @ [Emit (Debug ''Starting connection'')]"
  defines "t1 \<equiv> t0 @ [ApiPost ch node False]"
  defines "t2 \<equiv> t1 @ [ApiDelete ch]"
  defines "t3 \<equiv> t2 @ [ApiPost ch node False]"
  defines "tf \<equiv> (if api_delete w t1 ch = None then t3 else t2)"
  defines "r \<equiv> connect w targetChannelId s"
  assumes reached: "isConnected s \<longrightarrow> ch \<noteq> channelId s \<and> fst (disconnect w s) = Resolved ()"
    and node: "selectedNode w = Inr node"
    and conflict: "api_post w t0 ch node False = Inl joinError" "isAlreadyConnected joinError"
  shows
    "(\<forall>g. api_delete w t1 ch = None \<and> api_post w t2 ch node False = Inr g \<longrightarrow>
        requests (trace (snd r))
          = requests (trace s0) @ [ApiPost ch node False, ApiDelete ch, ApiPost ch node False]
        \<and> (\<forall>name. room_connect w (t3 @ [NewRoom (Room (length t3))]) (grant_url g)
                       (grant_token g) = Inr name
              \<longrightarrow> fst r = Resolved () \<and> connected (snd r)))
     \<and> (\<forall>g. (api_delete w t1 ch \<noteq> None \<or> isl (api_post w t2 ch node False))
             \<and> api_post w tf ch node True = Inr g \<longrightarrow>
        requests (trace (snd r)) = requests tf @ [ApiPost ch node True]
        \<and> (\<forall>name. room_connect w (tf @ [ApiPost ch node True, NewRoom (Room (Suc (length tf)))])
                       (grant_url g) (grant_token g) = Inr name
              \<longrightarrow> fst r = Resolved () \<and> connected (snd r)))
     \<and> ((api_delete w t1 ch \<noteq> None \<or> isl (api_post w t2 ch node False))
             \<and> isl (api_post w tf ch node True) \<longrightarrow>
        fst r = Rejected (Error conflict_message)
        \<and> trace (snd r)
            = tf @ [ApiPost ch node True,
                    Emit (ErrorEvent (Error conflict_message) ''connection''),
                    ConsoleError (cross_mark @ '' ['' @ ch @ ''] Failed to connect:'')
                      (Some (Error conflict_message))]
        \<and> \<not> connected (snd r) \<and> room (snd r) = room s0)
     \<and> requests tf = requests (trace s0) @ [ApiPost ch node False, ApiDelete ch]
                       @ (if api_delete w t1 ch = None then [ApiPost ch node False] else [])
     \<and> str_includes conflict_message ''Solutions to try:''"
proof -
  let ?s1 = "emit (Debug ''Starting connection'') s0"
  have r: "r = negotiate w ch ?s1"
  proof (cases "isConnected s")
    case True
    with reached have "ch \<noteq> channelId s" and "fst (disconnect w s) = Resolved ()"
      by simp_all
    then show ?thesis
      using True unfolding r_def s0_def ch_def
      by (cases "disconnect w s") (simp add: connect_def Let_def)
  next
    case False
    then show ?thesis
      unfolding r_def s0_def ch_def by (simp add: connect_def Let_def)
  qed
  have "room (snd (disconnect w s)) = None"
    by (simp add: disconnect_def Let_def split: option.splits)
  then have nc: "isConnected s0 \<longrightarrow> room s0 = None"
    by (simp add: s0_def)
  show ?thesis
    using node conflict conflict_message_guidance nc
    unfolding r tf_def t3_def t2_def t1_def t0_def
    by (simp add: Let_def negotiate_def join_call_def post_join_def
        release_and_retry_def force_join_def open_room_def connect_failed_def connected_def
        split: option.splits sum.splits prod.splits)
qed

theorem conflict_recovery_order_witness:
  "fst (connect stale_grant_world None (new_player ''vc'' ''srv'')) = Resolved ()
   \<and> connected (snd (connect stale_grant_world None (new_player ''vc'' ''srv'')))
   \<and> requests (trace (snd (connect stale_grant_world None (new_player ''vc'' ''srv''))))
       = [ApiPost ''vc'' ''worldwide'' False, ApiDelete ''vc'', ApiPost ''vc'' ''worldwide'' False]
   \<and> fst (connect force_only_world None (new_player ''vc'' ''srv'')) = Resolved ()
   \<and> requests (trace (snd (connect force_only_world None (new_player ''vc'' ''srv''))))
       = [ApiPost ''vc'' ''worldwide'' False, ApiDelete ''vc'', ApiPost ''vc'' ''worldwide'' False,
          ApiPost ''vc'' ''worldwide'' True]
   \<and> fst (connect held_world None (new_player ''vc'' ''srv'')) = Rejected (Error conflict_message)
   \<and> requests (trace (snd (connect held_world None (new_player ''vc'' ''srv''))))
       = [ApiPost ''vc'' ''worldwide'' False, ApiDelete ''vc'', ApiPost ''vc'' ''worldwide'' True]
   \<and> \<not> connected (snd (connect held_world None (new_player ''vc'' ''srv'')))"
proof -
  let ?p = "new_player ''vc'' ''srv''"
  have idle: "False \<longrightarrow> ''vc'' \<noteq> channelId ?p \<and> fst (disconnect w ?p) = Resolved ()" for w
    by simp
  have nc: "isConnected ?p = False"
    by (simp add: new_player_def)
  have ch: "channelToConnect None ?p = ''vc''" and tr: "trace ?p = []"
    by (simp_all add: channelToConnect_def new_player_def)
  have a: "selectedNode stale_grant_world = Inr ''worldwide''"
    "api_post stale_grant_world ([] @ [Emit (Debug ''Starting connection'')]) ''vc'' ''worldwide''
       False = Inl already_connected"
    by (simp_all add: selectedNode_def stale_grant_world_def calm_world_def)
  have b: "selectedNode force_only_world = Inr ''worldwide''"
    "api_post force_only_world ([] @ [Emit (Debug ''Starting connection'')]) ''vc'' ''worldwide''
       False = Inl already_connected"
    by (simp_all add: selectedNode_def force_only_world_def calm_world_def)
  have c: "selectedNode held_world = Inr ''worldwide''"
    "api_post held_world ([] @ [Emit (Debug ''Starting connection'')]) ''vc'' ''worldwide''
       False = Inl already_connected"
    by (simp_all add: selectedNode_def held_world_def calm_world_def)
  note A = conflict_recovery_order
             [where s = ?p and w = stale_grant_world and node = "''worldwide''"
                and targetChannelId = None and joinError = already_connected,
              unfolded ch nc if_False tr, OF idle a isAlreadyConnected_already_connected]
  note B = conflict_recovery_order
             [where s = ?p and w = force_only_world and node = "''worldwide''"
                and targetChannelId = None and joinError = already_connected,
              unfolded ch nc if_False tr, OF idle b isAlreadyConnected_already_connected]
  note C = conflict_recovery_order
             [where s = ?p and w = held_world and node = "''worldwide''"
                and targetChannelId = None and joinError = already_connected,
              unfolded ch nc if_False tr, OF idle c isAlreadyConnected_already_connected]
  have A': "fst (connect stale_grant_world None ?p) = Resolved ()
     \<and> connected (snd (connect stale_grant_world None ?p))
     \<and> requests (trace (snd (connect stale_grant_world None ?p)))
       = [ApiPost ''vc'' ''worldwide'' False, ApiDelete ''vc'', ApiPost ''vc'' ''worldwide'' False]"
    using A by (simp add: stale_grant_world_def calm_world_def)
  have B': "fst (connect force_only_world None ?p) = Resolved ()
     \<and> requests (trace (snd (connect force_only_world None ?p)))
       = [ApiPost ''vc'' ''worldwide'' False, ApiDelete ''vc'', ApiPost ''vc'' ''worldwide'' False,
          ApiPost ''vc'' ''worldwide'' True]"
    using B by (simp add: force_only_world_def calm_world_def)
  have C': "fst (connect held_world None ?p) = Rejected (Error conflict_message)
     \<and> requests (trace (snd (connect held_world None ?p)))
       = [ApiPost ''vc'' ''worldwide'' False, ApiDelete ''vc'', ApiPost ''vc'' ''worldwide'' True]
     \<and> \<not> connected (snd (connect held_world None ?p))"
    using C by (simp add: held_world_def calm_world_def)
  from A' B' C' show ?thesis
    by blast
qed

subsection \<open>Stopping the tracks, sending the chunks\<close>

lemma stop_all_shape:
  "\<exists>ys. stop_all w ps s = s\<lparr>trace := trace s @ ys\<rparr> \<and> frames ys = []"
proof (induction ps arbitrary: s)
  case Nil
  have "stop_all w [] s = s\<lparr>trace := trace s @ []\<rparr> \<and> frames [] = []"
    by simp
  then show ?case
    by blast
next
  case (Cons kp ps)
  obtain k p where kp: "kp = (k, p)"
    by (cases kp)
  define s2 where
    "s2 = (case fst (unpublish w (sid p) s) of
             None \<Rightarrow> emit (TrackStopped k) (snd (unpublish w (sid p) s))
           | Some e \<Rightarrow> stop_failed k e (snd (unpublish w (sid p) s)))"
  have step: "stop_all w (kp # ps) s = stop_all w ps s2"
    unfolding s2_def kp by (simp split: prod.splits option.splits)
  have "\<exists>zs. s2 = s\<lparr>trace := trace s @ zs\<rparr> \<and> frames zs = []"
  proof (cases "local_participant w (trace s)")
    case True
    show ?thesis
    proof (cases "unpublish_track w (trace s) (sid p)")
      case None
      with True have
        "s2 = s\<lparr>trace := trace s @ [UnpublishTrack (sid p), Emit (TrackStopped k)]\<rparr>"
        by (simp add: s2_def unpublish_def emit_def act_def)
      then show ?thesis
        by force
    next
      case (Some e)
      with True have
        "s2 = s\<lparr>trace := trace s @
                 [UnpublishTrack (sid p),
                  ConsoleError
                    (cross_mark @ '' ['' @ channelId s @ ''] Failed to stop track '' @ k @ '':'')
                    (Some e)]\<rparr>"
        by (simp add: s2_def unpublish_def stop_failed_def act_def)
      then show ?thesis
        by force
    qed
  next
    case False
    then have "s2 = s\<lparr>trace := trace s @ [Emit (TrackStopped k)]\<rparr>"
      by (simp add: s2_def unpublish_def emit_def act_def)
    then show ?thesis
      by force
  qed
  then obtain zs where zs: "s2 = s\<lparr>trace := trace s @ zs\<rparr>" "frames zs = []"
    by blast
  from Cons.IH [of s2] obtain ys
    where ys: "stop_all w ps s2 = s2\<lparr>trace := trace s2 @ ys\<rparr>" "frames ys = []"
    by blast
  have "stop_all w (kp # ps) s = s\<lparr>trace := trace s @ (zs @ ys)\<rparr> \<and> frames (zs @ ys) = []"
    using step zs ys by simp
  then show ?case
    by blast
qed

lemma stop_all_reports:
  "\<forall>kp \<in> set ps. list_ex (stop_reported (channelId s) (fst kp)) (trace (stop_all w ps s))"
proof (induction ps arbitrary: s)
  case Nil
  then show ?case
    by simp
next
  case (Cons kp ps)
  obtain k p where kp: "kp = (k, p)"
    by (cases kp)
  define s2 where
    "s2 = (case fst (unpublish w (sid p) s) of
             None \<Rightarrow> emit (TrackStopped k) (snd (unpublish w (sid p) s))
           | Some e \<Rightarrow> stop_failed k e (snd (unpublish w (sid p) s)))"
  have step: "stop_all w (kp # ps) s = stop_all w ps s2"
    unfolding s2_def kp by (simp split: prod.splits option.splits)
  have ch2: "channelId s2 = channelId s"
    by (simp add: s2_def stop_failed_def unpublish_def split: option.splits)
  have here: "list_ex (stop_reported (channelId s) k) (trace s2)"
    by (simp add: s2_def stop_failed_def unpublish_def stop_reported_def split: option.splits)
  obtain ys where ys: "stop_all w ps s2 = s2\<lparr>trace := trace s2 @ ys\<rparr>"
    using stop_all_shape by blast
  have first: "list_ex (stop_reported (channelId s) k) (trace (stop_all w ps s2))"
    using here by (simp add: ys)
  have rest: "\<forall>kp \<in> set ps. list_ex (stop_reported (channelId s) (fst kp))
                               (trace (stop_all w ps s2))"
    using Cons.IH [of s2] ch2 by simp
  show ?case
    using first rest kp step by simp
qed

lemma stop_shape:
  "\<exists>ps ys. stop w trackName s
            = s\<lparr>shouldStop := True, isStreaming := False, publications := ps,
                 trace := trace s @ ys\<rparr>
          \<and> frames ys = []"
proof -
  let ?s1 = "s\<lparr>shouldStop := True, isStreaming := False\<rparr>"
  have base: "?s1 = s\<lparr>shouldStop := True, isStreaming := False,
                       publications := publications s, trace := trace s @ []\<rparr>
              \<and> frames [] = []"
    by simp
  show ?thesis
  proof (cases "room s = None")
    case True
    then have "stop w trackName s = ?s1"
      by (simp add: stop_def Let_def)
    with base show ?thesis
      by metis
  next
    case False
    then obtain r where room: "room s = Some r"
      by auto
    show ?thesis
    proof (cases "trackName \<noteq> None \<and> trackName \<noteq> Some []")
      case False
      obtain ys where ys: "stop_all w (publications s) ?s1 = ?s1\<lparr>trace := trace ?s1 @ ys\<rparr>"
        "frames ys = []"
        using stop_all_shape by blast
      have "stop w trackName s = (stop_all w (publications s) ?s1)\<lparr>publications := []\<rparr>"
        using room False by (auto simp: stop_def Let_def)
      then have "stop w trackName s
                  = s\<lparr>shouldStop := True, isStreaming := False, publications := [],
                       trace := trace s @ ys\<rparr>"
        by (simp add: ys)
      with ys(2) show ?thesis
        by blast
    next
      case named: True
      then obtain n where n: "trackName = Some n"
        by auto
      show ?thesis
      proof (cases "map_of (publications s) n")
        case None
        then have "stop w trackName s = ?s1"
          using room named n by (simp add: stop_def Let_def)
        with base show ?thesis
          by metis
      next
        case (Some p)
        show ?thesis
        proof (cases "local_participant w (trace s)")
          case False
          then have "stop w trackName s
                      = s\<lparr>shouldStop := True, isStreaming := False,
                           publications := AList.delete n (publications s),
                           trace := trace s @ [Emit (TrackStopped n)]\<rparr>"
            using room named n Some
            by (simp add: stop_def Let_def unpublish_def emit_def act_def)
          moreover have "frames [Emit (TrackStopped n)] = []"
            by simp
          ultimately show ?thesis
            by blast
        next
          case lp: True
          show ?thesis
          proof (cases "unpublish_track w (trace s) (sid p)")
            case None
            then have "stop w trackName s
                      = s\<lparr>shouldStop := True, isStreaming := False,
                           publications := AList.delete n (publications s),
                           trace := trace s @ [UnpublishTrack (sid p), Emit (TrackStopped n)]\<rparr>"
              using room named n Some lp
              by (simp add: stop_def Let_def unpublish_def emit_def act_def)
            moreover have "frames [UnpublishTrack (sid p), Emit (TrackStopped n)] = []"
              by simp
            ultimately show ?thesis
              by blast
          next
            case (Some e)
            then have "stop w trackName s
                      = s\<lparr>shouldStop := True, isStreaming := False,
                           publications := publications s,
                           trace := trace s @ [UnpublishTrack (sid p),
                             ConsoleError (cross_mark @ '' ['' @ channelId s
                                            @ ''] Failed to stop track '' @ n @ '':'') (Some e)]\<rparr>"
              using room named n \<open>map_of (publications s) n = Some p\<close> lp
              by (simp add: stop_def Let_def unpublish_def stop_failed_def act_def)
            moreover have "frames [UnpublishTrack (sid p),
                             ConsoleError (cross_mark @ '' ['' @ channelId s
                                            @ ''] Failed to stop track '' @ n @ '':'') (Some e)] = []"
              by simp
            ultimately show ?thesis
              by blast
          qed
        qed
      qed
    qed
  qed
qed

lemma stop_facts [simp]:
  "shouldStop (stop w trackName s)" "\<not> isStreaming (stop w trackName s)"
  "room (stop w trackName s) = room s" "audioSources (stop w trackName s) = audioSources s"
  "channelId (stop w trackName s) = channelId s" "volume (stop w trackName s) = volume s"
  "isConnected (stop w trackName s) = isConnected s"
  "frames (trace (stop w trackName s)) = frames (trace s)"
  using stop_shape [of w trackName s] by auto

lemma handleDisconnected_facts [simp]:
  "room (handleDisconnected s) = None" "publications (handleDisconnected s) = []"
  "audioSources (handleDisconnected s) = []" "\<not> isConnected (handleDisconnected s)"
  "channelId (handleDisconnected s) = channelId s" "volume (handleDisconnected s) = volume s"
  "shouldStop (handleDisconnected s) = shouldStop s"
  "frames (trace (handleDisconnected s)) = frames (trace s)"
  by (simp_all add: handleDisconnected_def Let_def)

lemma transport_event_facts [simp]:
  "channelId (transport_event w s) = channelId s" "volume (transport_event w s) = volume s"
  "shouldStop (transport_event w s) = shouldStop s"
  "frames (trace (transport_event w s)) = frames (trace s)"
  by (simp_all add: transport_event_def)

lemma suspend_facts [simp]:
  "channelId (suspend w s) = channelId s" "volume (suspend w s) = volume s"
  "frames (trace (suspend w s)) = frames (trace s)"
  by (simp_all add: suspend_def Let_def split: option.splits)

lemma suspend_keeps_flag: "shouldStop s \<Longrightarrow> shouldStop (suspend w s)"
  by (simp add: suspend_def Let_def split: option.splits)

lemma sendChunk_facts [simp]:
  "channelId (snd (sendChunk w src chunk n s)) = channelId s"
  "volume (snd (sendChunk w src chunk n s)) = volume s"
  "frames (trace (snd (sendChunk w src chunk n s))) = frames (trace s) @ [chunk]"
  by (simp_all add: sendChunk_def captureFrame_def split: option.splits)

lemma sendLoop_stopped: "shouldStop s \<Longrightarrow> sendLoop w src pcmData offset n s = (n, s)"
  by (subst sendLoop.simps) simp

lemma sendLoop_step:
  "offset < length pcmData \<Longrightarrow> \<not> shouldStop s \<Longrightarrow>
   sendLoop w src pcmData offset n s =
     sendLoop w src pcmData (min (offset + samplesPerChunk) (length pcmData))
       (fst (sendChunk w src
               (take (min (offset + samplesPerChunk) (length pcmData) - offset) (drop offset pcmData))
               n s))
       (snd (sendChunk w src
               (take (min (offset + samplesPerChunk) (length pcmData) - offset) (drop offset pcmData))
               n s))"
  by (subst sendLoop.simps) (simp add: Let_def)

lemma sendLoop_done: "\<not> offset < length pcmData \<Longrightarrow> sendLoop w src pcmData offset n s = (n, s)"
  by (subst sendLoop.simps) simp

lemma sendLoop_frames:
  "\<exists>k. frames (trace (snd (sendLoop w src pcmData offset n s)))
        = frames (trace s) @ take k (chunks_from offset pcmData)"
proof (induction w src pcmData offset n s rule: sendLoop.induct)
  case (1 w src pcmData offset n s)
  show ?case
  proof (cases "offset < length pcmData \<and> \<not> shouldStop s")
    case False
    then have "sendLoop w src pcmData offset n s = (n, s)"
      using sendLoop_stopped sendLoop_done by blast
    then have "frames (trace (snd (sendLoop w src pcmData offset n s)))
                = frames (trace s) @ take 0 (chunks_from offset pcmData)"
      by simp
    then show ?thesis
      by blast
  next
    case True
    let ?e = "min (offset + samplesPerChunk) (length pcmData)"
    let ?c = "take (?e - offset) (drop offset pcmData)"
    let ?r = "sendChunk w src ?c n s"
    from "1.IH" [OF True refl refl refl] obtain k where
      k: "frames (trace (snd (sendLoop w src pcmData ?e (fst ?r) (snd ?r))))
            = frames (trace (snd ?r)) @ take k (chunks_from ?e pcmData)"
      by blast
    have cf: "chunks_from offset pcmData = ?c # chunks_from ?e pcmData"
      using True by (subst chunks_from.simps) simp
    have "frames (trace (snd (sendLoop w src pcmData offset n s)))
            = frames (trace s) @ take (Suc k) (chunks_from offset pcmData)"
      using True k by (simp add: sendLoop_step cf)
    then show ?thesis
      by blast
  qed
qed

lemma joined_worlds:
  "joined stopping_world = joined calm_world"
  "joined bad_file_world = joined calm_world"
  "joined no_track_world = joined calm_world"
  "joined nodeav_world = joined calm_world"
  "joined library_world = joined calm_world"
  "joined drop_world = joined calm_world"
  by (simp_all add: joined_def connect_defs calm_world_def new_player_def stopping_world_def
      bad_file_world_def no_track_world_def nodeav_world_def library_world_def drop_world_def)

lemma samplesPerChunk_eq: "samplesPerChunk = 4800"
  by (simp add: samplesPerChunk_def chunkDurationMs_def)

lemma first_chunk:
  "sendChunk stopping_world ''file_7'' (replicate 4800 0) 0 (joined stopping_world)
     = (Suc 0, (joined calm_world)
             \<lparr>trace := trace (joined calm_world)
                        @ [CaptureFrame ''file_7'' (replicate 4800 0), Sleep 100]\<rparr>)"
  unfolding joined_worlds joined_calm
  by (simp add: sendChunk_def captureFrame_def suspend_def transport_event_def
      stopping_world_def calm_world_def chunkDurationMs_def act_def)

lemma second_chunk:
  "sendChunk stopping_world ''file_7'' (replicate 4800 0) (Suc 0)
     ((joined calm_world)
        \<lparr>trace := trace (joined calm_world)
                   @ [CaptureFrame ''file_7'' (replicate 4800 0), Sleep 100]\<rparr>)
     = (2, (joined calm_world)
             \<lparr>shouldStop := True,
              trace := trace (joined calm_world)
                        @ [CaptureFrame ''file_7'' (replicate 4800 0), Sleep 100,
                           CaptureFrame ''file_7'' (replicate 4800 0), Sleep 100]\<rparr>)"
  unfolding joined_calm
  by (simp add: sendChunk_def captureFrame_def suspend_def transport_event_def stop_def
      stopping_world_def calm_world_def chunkDurationMs_def act_def)

subsection \<open>Cleanup on disconnect\<close>

lemma run_once_trace: "\<exists>ys. trace (run_once s) = trace s @ ys"
proof -
  obtain ys where
    "run_once s = s\<lparr>isStreaming := (if disconnectedOnce s = [] then isStreaming s else False),
                     disconnectedOnce := [], trace := trace s @ ys\<rparr>"
    using run_once_shape [of s] by blast
  then have "trace (run_once s) = trace s @ ys"
    by simp
  then show ?thesis
    by blast
qed

lemma disconnect_trace:
  "\<exists>zs. trace (snd (disconnect w s)) = trace (stop w None s) @ zs"
proof (cases "room s")
  case None
  have "stop w None s = s\<lparr>shouldStop := True, isStreaming := False\<rparr>"
    using None by (simp add: stop_def Let_def)
  then have "trace (snd (disconnect w s)) = trace (stop w None s) @ []"
    using None by (simp add: disconnect_def)
  then show ?thesis
    by blast
next
  case (Some r)
  let ?s3 = "act (RoomDisconnect r) ((stop w None s)\<lparr>audioSources := []\<rparr>)"
  show ?thesis
  proof (cases "room_disconnect w (trace (stop w None s))")
    case None
    let ?s4 = "?s3\<lparr>isConnected := False, publications := [], room := None\<rparr>"
    let ?s5 = "emit (Disconnected (channelId ?s4) (serverId ?s4) ''manual'') ?s4"
    obtain ys where ys: "trace (run_once ?s5) = trace ?s5 @ ys"
      using run_once_trace by blast
    have "trace (snd (disconnect w s))
            = trace (stop w None s)
              @ ([RoomDisconnect r, Emit (Disconnected (channelId ?s4) (serverId ?s4) ''manual'')]
                 @ ys @ [Emit (Debug ''Disconnected manually'')])"
      using Some None ys by (simp add: disconnect_def Let_def emit_disconnected_def)
    then show ?thesis
      by blast
  next
    case (Some e)
    have "trace (snd (disconnect w s))
            = trace (stop w None s)
              @ [RoomDisconnect r,
                 ConsoleError (cross_mark @ '' ['' @ channelId s @ ''] Error during disconnect:'')
                   (Some e)]"
      using \<open>room s = Some r\<close> Some by (simp add: disconnect_def Let_def)
    then show ?thesis
      by blast
  qed
qed

lemma disconnect_fields:
  "room s \<noteq> None \<Longrightarrow>
   publications (snd (disconnect w s)) = [] \<and> audioSources (snd (disconnect w s)) = []
   \<and> room (snd (disconnect w s)) = None \<and> \<not> isConnected (snd (disconnect w s))"
  by (cases "room_disconnect w (trace (stop w None s))")
     (auto simp: disconnect_def Let_def)

lemma disconnect_clears_held_room:
  assumes "room s \<noteq> None"
  shows "publications (snd (disconnect w s)) = []
       \<and> audioSources (snd (disconnect w s)) = []
       \<and> room (snd (disconnect w s)) = None
       \<and> \<not> connected (snd (disconnect w s))
       \<and> (\<forall>kp \<in> set (publications s).
            list_ex (stop_reported (channelId s) (fst kp)) (trace (snd (disconnect w s))))"
proof -
  let ?s0 = "s\<lparr>shouldStop := True, isStreaming := False\<rparr>"
  let ?s1 = "stop_all w (publications s) ?s0"
  obtain r where "room s = Some r"
    using assms by auto
  then have st: "stop w None s = ?s1\<lparr>publications := []\<rparr>"
    by (simp add: stop_def Let_def)
  have rep: "\<forall>kp \<in> set (publications s).
               list_ex (stop_reported (channelId s) (fst kp)) (trace ?s1)"
    using stop_all_reports [of "publications s" ?s0 w] by simp
  obtain zs where zs: "trace (snd (disconnect w s)) = trace (stop w None s) @ zs"
    using disconnect_trace by blast
  have "\<forall>kp \<in> set (publications s).
          list_ex (stop_reported (channelId s) (fst kp)) (trace (snd (disconnect w s)))"
    using rep by (simp add: zs st)
  with disconnect_fields [OF assms, of w] show ?thesis
    by (simp add: connected_def)
qed

lemma room_created_joined:
  "room_created (Emit (Debug ''Starting connection'') # ApiPost ''vc'' ''worldwide'' False #
                 NewRoom (Room 2) # tr)"
  by (simp add: room_created_def)

text \<open>
  Claim C3, evaluated where the code departs from it. \<open>processAudio\<close> registers the
  publication after it has awaited \<open>publishTrack\<close>. A connected player plays a file and
  the connection is lost during that wait: the handler of \<open>Disconnected\<close> clears the
  tracking and the transport handle, and then the publication \<open>TR_1\<close> is registered on a
  player that holds no handle. \<open>disconnect\<close> returns at once when there is no handle,
  whatever the world, so after it has completed the player still tracks \<open>TR_1\<close>, a track
  of a session that is gone; \<open>stop\<close> does not remove it either.
\<close>

theorem disconnect_keeps_late_publication:
  "play drop_world (Str ''/music/a.mp3'') (joined drop_world) = (Resolved (), dropped)
   \<and> trace dropped
       = trace (joined drop_world)
         @ [Emit (Debug ''Auto-detected file path input''),
            Emit (AudioStart ''/music/a.mp3'' ''file''),
            Emit (Debug ''Starting file playback''),
            Emit (ConversionStart ''/music/a.mp3'' 48000 1),
            Emit (Debug ''node-av not available, using FFmpeg for audio conversion''),
            SpawnFFmpeg [''-i'', ''/music/a.mp3'', ''-f'', ''s16le'', ''-ar'', ''48000'',
                         ''-ac'', ''1'', ''-''],
            Emit (ConversionEnd ''/music/a.mp3'' 2),
            Emit (Debug ''FFmpeg conversion completed''),
            PublishTrack ''file_7'',
            Emit (Disconnected ''vc'' ''srv'' ''unexpected''),
            Emit (Debug ''Voice disconnected unexpectedly''),
            Emit (TrackPublished ''TR_1''),
            Emit (Debug ''Audio track published successfully''),
            CaptureFrame ''file_7'' [1, 2], Sleep 100,
            Emit (Debug ''Audio playback completed successfully''),
            Emit (Debug ''publishPCMAudio resolving''),
            Emit (AudioEnd ''/music/a.mp3'' ''file''),
            Emit (Debug ''File playback completed'')]
   \<and> room dropped = None
   \<and> \<not> connected dropped
   \<and> publications dropped = [(''TR_1'', Publication ''TR_1'')]
   \<and> disconnect w dropped = (Resolved (), dropped)
   \<and> publications (snd (disconnect w dropped)) = [(''TR_1'', Publication ''TR_1'')]
   \<and> publications (stop w None dropped) = [(''TR_1'', Publication ''TR_1'')]"
proof -
  have run: "play drop_world (Str ''/music/a.mp3'') (joined drop_world) =
    (Resolved (),
     (joined calm_world)
       \<lparr>room := None, publications := [(''TR_1'', Publication ''TR_1'')],
        isConnected := False,
        trace := trace (joined calm_world)
         @ [Emit (Debug ''Auto-detected file path input''),
            Emit (AudioStart ''/music/a.mp3'' ''file''),
            Emit (Debug ''Starting file playback''),
            Emit (ConversionStart ''/music/a.mp3'' 48000 1),
            Emit (Debug ''node-av not available, using FFmpeg for audio conversion''),
            SpawnFFmpeg [''-i'', ''/music/a.mp3'', ''-f'', ''s16le'', ''-ar'', ''48000'',
                         ''-ac'', ''1'', ''-''],
            Emit (ConversionEnd ''/music/a.mp3'' 2),
            Emit (Debug ''FFmpeg conversion completed''),
            PublishTrack ''file_7'',
            Emit (Disconnected ''vc'' ''srv'' ''unexpected''),
            Emit (Debug ''Voice disconnected unexpectedly''),
            Emit (TrackPublished ''TR_1''),
            Emit (Debug ''Audio track published successfully''),
            CaptureFrame ''file_7'' [1, 2], Sleep 100,
            Emit (Debug ''Audio playback completed successfully''),
            Emit (Debug ''publishPCMAudio resolving''),
            Emit (AudioEnd ''/music/a.mp3'' ''file''),
            Emit (Debug ''File playback completed'')]\<rparr>)"
    unfolding joined_worlds joined_calm
    by (simp add: play_def isUrl_def isFilePath_def playFromFile_def ensure_connected_def
      connected_def await_def catch_file_def convertAudioToPCM_def convert_closed_def
      ffmpeg_args_def publishPCMAudio_def processAudio_def applyVolume_def suspend_def
      transport_event_def room_created_joined handleDisconnected_def emit_disconnected_def
      unmute_track_def sendLoop_step sendLoop_done sendChunk_def captureFrame_def
      samplesPerChunk_eq chunkDurationMs_def show_facts drop_world_def calm_world_def
      act_def emit_def Let_def)
  have r: "room dropped = None"
    and p: "publications dropped = [(''TR_1'', Publication ''TR_1'')]"
    unfolding dropped_def run by simp_all
  have dis: "disconnect w dropped = (Resolved (), dropped)"
    using r by (simp add: disconnect_def)
  have st: "publications (stop w None dropped) = [(''TR_1'', Publication ''TR_1'')]"
    using r p by (simp add: stop_def Let_def)
  have tr: "trace dropped = trace (joined drop_world)
         @ [Emit (Debug ''Auto-detected file path input''),
            Emit (AudioStart ''/music/a.mp3'' ''file''),
            Emit (Debug ''Starting file playback''),
            Emit (ConversionStart ''/music/a.mp3'' 48000 1),
            Emit (Debug ''node-av not available, using FFmpeg for audio conversion''),
            SpawnFFmpeg [''-i'', ''/music/a.mp3'', ''-f'', ''s16le'', ''-ar'', ''48000'',
                         ''-ac'', ''1'', ''-''],
            Emit (ConversionEnd ''/music/a.mp3'' 2),
            Emit (Debug ''FFmpeg conversion completed''),
            PublishTrack ''file_7'',
            Emit (Disconnected ''vc'' ''srv'' ''unexpected''),
            Emit (Debug ''Voice disconnected unexpectedly''),
            Emit (TrackPublished ''TR_1''),
            Emit (Debug ''Audio track published successfully''),
            CaptureFrame ''file_7'' [1, 2], Sleep 100,
            Emit (Debug ''Audio playback completed successfully''),
            Emit (Debug ''publishPCMAudio resolving''),
            Emit (AudioEnd ''/music/a.mp3'' ''file''),
            Emit (Debug ''File playback completed'')]"
    unfolding dropped_def run by (simp add: joined_worlds)
  have whole: "play drop_world (Str ''/music/a.mp3'') (joined drop_world) = (Resolved (), dropped)"
    by (simp add: dropped_def run)
  have nc: "\<not> connected dropped"
    using r by (simp add: connected_def)
  have pd: "publications (snd (disconnect w dropped)) = [(''TR_1'', Publication ''TR_1'')]"
    using p by (simp add: dis)
  from whole tr r nc p dis pd st show ?thesis
    by (intro conjI)
qed

subsection \<open>Stopping a transmission\<close>

text \<open>
  Claim C4. \<open>stop\<close> sets the cancellation flag. The transmission loop of the finite mode
  reads the flag before each chunk: when it is set the loop returns at once, with the
  player unchanged, so no frame is handed to the transport and nothing else happens.
  When the host calls \<open>stop\<close> while a chunk is in flight (the flag is set when the pass
  over that chunk ends), the loop ends with that pass: of the frames, only the one
  already handed over is added. In every run the frames handed over are an initial
  segment of the chunks of the buffer, in order; the remaining chunks are not played
  out. Time is counted in passes of the loop, each of one chunk's duration.
\<close>

theorem stop_halts_transmission:
  fixes pcmData :: pcm and offset :: nat
  defines "chunk \<equiv> take (min (offset + samplesPerChunk) (length pcmData) - offset)
                       (drop offset pcmData)"
  shows
    "shouldStop (stop w trackName s)
     \<and> (shouldStop s \<longrightarrow> sendLoop w src pcmData offset n s = (n, s))
     \<and> (offset < length pcmData \<and> \<not> shouldStop s
          \<and> shouldStop (snd (sendChunk w src chunk n s)) \<longrightarrow>
            sendLoop w src pcmData offset n s = sendChunk w src chunk n s
            \<and> frames (trace (snd (sendLoop w src pcmData offset n s)))
                = frames (trace s) @ [chunk])
     \<and> (\<exists>k. frames (trace (snd (sendLoop w src pcmData offset n s)))
               = frames (trace s) @ take k (chunks_from offset pcmData))"
proof -
  have a: "shouldStop (stop w trackName s)"
    by simp
  have b: "shouldStop s \<longrightarrow> sendLoop w src pcmData offset n s = (n, s)"
    by (simp add: sendLoop_stopped)
  have c: "offset < length pcmData \<and> \<not> shouldStop s
          \<and> shouldStop (snd (sendChunk w src chunk n s)) \<longrightarrow>
            sendLoop w src pcmData offset n s = sendChunk w src chunk n s
            \<and> frames (trace (snd (sendLoop w src pcmData offset n s)))
                = frames (trace s) @ [chunk]"
    by (simp add: sendLoop_step sendLoop_stopped chunk_def)
  from a b c sendLoop_frames show ?thesis
    by blast
qed

theorem stop_halts_transmission_witness:
  "\<not> shouldStop (snd (sendChunk stopping_world ''file_7'' (replicate 4800 0) 0
                         (joined stopping_world)))
   \<and> shouldStop (snd (sendChunk stopping_world ''file_7'' (replicate 4800 0) 1
                        (snd (sendChunk stopping_world ''file_7'' (replicate 4800 0) 0
                                (joined stopping_world)))))
   \<and> sendLoop stopping_world ''file_7'' (replicate 14400 0) 4800 1
        (snd (sendChunk stopping_world ''file_7'' (replicate 4800 0) 0 (joined stopping_world)))
      = sendChunk stopping_world ''file_7'' (replicate 4800 0) 1
          (snd (sendChunk stopping_world ''file_7'' (replicate 4800 0) 0 (joined stopping_world)))
   \<and> fst (sendLoop stopping_world ''file_7'' (replicate 14400 0) 0 0 (joined stopping_world)) = 2
   \<and> frames (trace (snd (sendLoop stopping_world ''file_7'' (replicate 14400 0) 0 0
                            (joined stopping_world))))
      = [replicate 4800 0, replicate 4800 0]
   \<and> chunks_from 0 (replicate 14400 0 :: pcm) = [replicate 4800 0, replicate 4800 0, replicate 4800 0]"
proof -
  let ?p = "joined stopping_world"
  let ?c = "replicate 4800 0 :: pcm"
  let ?p1 = "snd (sendChunk stopping_world ''file_7'' ?c 0 ?p)"
  have a: "\<not> shouldStop ?p1"
    by (simp add: first_chunk joined_calm)
  have b: "shouldStop (snd (sendChunk stopping_world ''file_7'' ?c 1 ?p1))"
    by (simp add: first_chunk second_chunk)
  have tail: "sendLoop stopping_world ''file_7'' (replicate 14400 0) 4800 1 ?p1
                = sendChunk stopping_world ''file_7'' ?c 1 ?p1"
    using stop_halts_transmission
            [of stopping_world None ?p1 "''file_7''" "replicate 14400 0" 4800 1]
          a b
    by (simp add: samplesPerChunk_eq)
  have f1: "fst (sendChunk stopping_world ''file_7'' ?c 0 ?p) = Suc 0"
    by (simp add: first_chunk)
  have ns: "\<not> shouldStop ?p"
    by (simp add: joined_worlds joined_calm)
  have "sendLoop stopping_world ''file_7'' (replicate 14400 0) 0 0 ?p
          = sendLoop stopping_world ''file_7'' (replicate 14400 0) 4800 (Suc 0) ?p1"
    using sendLoop_step [of 0 "replicate 14400 0" ?p stopping_world "''file_7''" 0] ns
    by (simp add: samplesPerChunk_eq f1)
  with tail have whole:
    "sendLoop stopping_world ''file_7'' (replicate 14400 0) 0 0 ?p
       = sendChunk stopping_world ''file_7'' ?c 1 ?p1"
    by simp
  have d: "chunks_from 0 (replicate 14400 0 :: pcm) = [?c, ?c, ?c]"
    by (simp add: chunks_from.simps samplesPerChunk_eq)
  have e: "fst (sendChunk stopping_world ''file_7'' ?c 1 ?p1) = 2"
    by (simp add: first_chunk second_chunk)
  have f: "frames (trace (snd (sendChunk stopping_world ''file_7'' ?c 1 ?p1))) = [?c, ?c]"
    by (simp add: first_chunk second_chunk joined_calm)
  show ?thesis
    unfolding whole using a b tail d e f by blast
qed

subsection \<open>A failing decode, a missing publication\<close>

text \<open>
  Claim C1, evaluated where the code departs from it. A connected player plays an
  existing file without \<open>node-av\<close>. When \<open>ffmpeg\<close> exits with status 1, the promise of
  \<open>play\<close> never settles: \<open>conversionError\<close> is emitted and the error is logged, but there is
  no rejection and neither \<open>audioError\<close> nor \<open>error\<close> is emitted. When the decode succeeds
  and the transport returns no publication, the promise never settles either and only a
  console line is written. In both runs the player stays connected.
\<close>

theorem play_failure_never_settles:
  "fst (play bad_file_world (Str ''/music/a.mp3'') (joined bad_file_world)) = Pending
   \<and> trace (snd (play bad_file_world (Str ''/music/a.mp3'') (joined bad_file_world)))
       = trace (joined bad_file_world)
         @ [Emit (Debug ''Auto-detected file path input''),
            Emit (AudioStart ''/music/a.mp3'' ''file''),
            Emit (Debug ''Starting file playback''),
            Emit (ConversionStart ''/music/a.mp3'' 48000 1),
            Emit (Debug ''node-av not available, using FFmpeg for audio conversion''),
            SpawnFFmpeg [''-i'', ''/music/a.mp3'', ''-f'', ''s16le'', ''-ar'', ''48000'',
                         ''-ac'', ''1'', ''-''],
            Emit (ConversionError ''/music/a.mp3''
                    (Error ''FFmpeg failed with code 1: Invalid data found when processing input'')),
            ConsoleError []
              (Some (Error ''FFmpeg failed with code 1: Invalid data found when processing input''))]
   \<and> connected (snd (play bad_file_world (Str ''/music/a.mp3'') (joined bad_file_world)))
   \<and> fst (play no_track_world (Str ''/music/a.mp3'') (joined no_track_world)) = Pending
   \<and> trace (snd (play no_track_world (Str ''/music/a.mp3'') (joined no_track_world)))
       = trace (joined no_track_world)
         @ [Emit (Debug ''Auto-detected file path input''),
            Emit (AudioStart ''/music/a.mp3'' ''file''),
            Emit (Debug ''Starting file playback''),
            Emit (ConversionStart ''/music/a.mp3'' 48000 1),
            Emit (Debug ''node-av not available, using FFmpeg for audio conversion''),
            SpawnFFmpeg [''-i'', ''/music/a.mp3'', ''-f'', ''s16le'', ''-ar'', ''48000'',
                         ''-ac'', ''1'', ''-''],
            Emit (ConversionEnd ''/music/a.mp3'' 0),
            Emit (Debug ''FFmpeg conversion completed''),
            PublishTrack ''file_7'',
            ConsoleError [] (Some (Error ''Failed to publish audio track''))]
   \<and> connected (snd (play no_track_world (Str ''/music/a.mp3'') (joined no_track_world)))"
  unfolding joined_worlds joined_calm
  by (simp add: play_def isUrl_def isFilePath_def playFromFile_def ensure_connected_def
      connected_def await_def catch_file_def convertAudioToPCM_def convert_closed_def
      ffmpeg_args_def publishPCMAudio_def processAudio_def applyVolume_def suspend_def
      transport_event_def show_facts bad_file_world_def no_track_world_def calm_world_def
      act_def emit_def Let_def)

subsection \<open>Live playback\<close>


subsection \<open>Classifying the input of \<open>play\<close>\<close>

text \<open>
  Claim C7. \<open>play\<close> follows the classifier of the specification. A stream handle is a
  \<open>stream\<close> and is played by \<open>playFromStream\<close> (under the name and type \<open>stream\<close>, after
  \<open>audioStart\<close>). A string classified \<open>url\<close> (it parses as an absolute URL with protocol
  http or https) is played by \<open>playFromUrl\<close>; one classified \<open>file\<close> (not such a URL, and
  naming an existing filesystem entry) by \<open>playFromFile\<close>. For any other string \<open>play\<close>
  is rejected with the invalid-input error and the player is unchanged: no event is
  emitted and no playback starts. A string is never a \<open>stream\<close>.
\<close>

theorem play_classifies_input:
  "classify_spec w (trace s) (Stream st) = Inr KindStream
   \<and> play w (Stream st) s
       = playFromStream w st (Some ''stream'') (Some ''stream'')
           (emit (AudioStart ''stream'' ''stream'') (emit (Debug ''Auto-detected stream input'') s))
   \<and> (classify_spec w (trace s) (Str x) = Inr KindUrl \<longrightarrow>
        play w (Str x) s = playFromUrl w x (emit (Debug ''Auto-detected URL input'') s))
   \<and> (classify_spec w (trace s) (Str x) = Inr KindFile \<longrightarrow>
        play w (Str x) s = playFromFile w x (emit (Debug ''Auto-detected file path input'') s))
   \<and> (classify_spec w (trace s) (Str x) = Inl InvalidInput \<longrightarrow>
        play w (Str x) s = (Rejected (invalid_input x), s)
        \<and> startsWith (the (message (invalid_input x))) ''Invalid input: '')
   \<and> classify_spec w (trace s) (Str x) \<noteq> Inr KindStream"
  by (auto simp: classify_spec_def play_def isUrl_def isFilePath_def invalid_input_def Error_def
      split: option.splits if_splits)

theorem play_classifies_input_witness:
  "classify_spec library_world [] (Str ''https://example.com/a.mp3'') = Inr KindUrl
   \<and> play library_world (Str ''https://example.com/a.mp3'') (new_player ''vc'' ''srv'')
       = playFromUrl library_world ''https://example.com/a.mp3''
           (emit (Debug ''Auto-detected URL input'') (new_player ''vc'' ''srv''))
   \<and> classify_spec library_world [] (Str ''/music/a.mp3'') = Inr KindFile
   \<and> play library_world (Str ''/music/a.mp3'') (new_player ''vc'' ''srv'')
       = playFromFile library_world ''/music/a.mp3''
           (emit (Debug ''Auto-detected file path input'') (new_player ''vc'' ''srv''))
   \<and> classify_spec library_world [] (Str ''/tmp/nonexistent.mp3'') = Inl InvalidInput
   \<and> play library_world (Str ''/tmp/nonexistent.mp3'') (new_player ''vc'' ''srv'')
       = (Rejected (invalid_input ''/tmp/nonexistent.mp3''), new_player ''vc'' ''srv'')
   \<and> classify_spec library_world [] (Str ''ftp://example.com/a.mp3'') = Inl InvalidInput"
proof -
  have tr: "trace (new_player ''vc'' ''srv'') = []"
    by (simp add: new_player_def)
  have a: "classify_spec library_world [] (Str ''https://example.com/a.mp3'') = Inr KindUrl"
    and b: "classify_spec library_world [] (Str ''/music/a.mp3'') = Inr KindFile"
    and c: "classify_spec library_world [] (Str ''/tmp/nonexistent.mp3'') = Inl InvalidInput"
    and d: "classify_spec library_world [] (Str ''ftp://example.com/a.mp3'') = Inl InvalidInput"
    by (simp_all add: classify_spec_def library_world_def calm_world_def)
  show ?thesis
    using a b c d
      play_classifies_input [of library_world "new_player ''vc'' ''srv''" _
                                "''https://example.com/a.mp3''"]
      play_classifies_input [of library_world "new_player ''vc'' ''srv''" _ "''/music/a.mp3''"]
      play_classifies_input [of library_world "new_player ''vc'' ''srv''" _
                                "''/tmp/nonexistent.mp3''"]
    by (simp add: tr)
qed

end
